theory Spec2Isabelle
  imports Main
begin

section \<open>AMDP debug session manager (pkg/adt/amdp\_session.go)\<close>

text \<open>
  The session manager keeps one remote AMDP debug session alive inside a worker goroutine
  and lets request handlers talk to it through a command channel. The embedding below
  follows amdp\_session.go function by function. Mutation of the manager is explicit state
  passing on the record \<open>manager\<close>; what the remote system answers to an HTTP request is an
  argument of the function that issues the request; every request actually handed to
  \<open>httpClient.Do\<close> is appended to the log \<open>calls\<close>.
\<close>

subsection \<open>Data model\<close>

text \<open>\<open>AMDPCommandType\<close> is a Go \<open>int\<close>; the constants are numbered by \<open>iota\<close>.\<close>

type_synonym AMDPCommandType = int

definition AMDPCmdStart :: AMDPCommandType where "AMDPCmdStart = 0"
definition AMDPCmdStop :: AMDPCommandType where "AMDPCmdStop = 1"
definition AMDPCmdStep :: AMDPCommandType where "AMDPCmdStep = 2"
definition AMDPCmdGetStatus :: AMDPCommandType where "AMDPCmdGetStatus = 3"
definition AMDPCmdGetVariables :: AMDPCommandType where "AMDPCmdGetVariables = 4"
definition AMDPCmdSetBreakpoint :: AMDPCommandType where "AMDPCmdSetBreakpoint = 5"
definition AMDPCmdGetBreakpoints :: AMDPCommandType where "AMDPCmdGetBreakpoints = 6"

text \<open>A value of \<open>map[string]interface{}\<close>: the handlers only ever test for string and int.\<close>

datatype argval = StrArg string | IntArg int | OtherArg

type_synonym args = "string \<rightharpoonup> argval"

text \<open>\<open>v, _ := args[k].(string)\<close> and \<open>v, _ := args[k].(int)\<close>: the zero value when the
  key is missing or holds another type.\<close>

definition arg_string :: "args \<Rightarrow> string \<Rightarrow> string" where
  "arg_string a k = (case a k of Some (StrArg s) \<Rightarrow> s | _ \<Rightarrow> '''')"

definition arg_int :: "args \<Rightarrow> string \<Rightarrow> int" where
  "arg_int a k = (case a k of Some (IntArg i) \<Rightarrow> i | _ \<Rightarrow> 0)"

record AMDPSessionState =
  SessionID :: string
  MainID :: string
  ObjectURI :: string
  Status :: string
  CurrentLine :: int
  CurrentProc :: string

text \<open>The zero value \<open>AMDPSessionState{}\<close>.\<close>

definition empty_state :: AMDPSessionState where
  "empty_state = \<lparr>SessionID = '''', MainID = '''', ObjectURI = '''', Status = '''',
                   CurrentLine = 0, CurrentProc = ''''\<rparr>"

text \<open>
  Go errors. Each constructor stands for one \<open>fmt.Errorf\<close> text of the source (or for an
  error handed up from the standard library); wrapping with \<open>%w\<close> keeps the cause.
\<close>

datatype error =
    ErrAlreadyActive            \<comment> \<open>"AMDP session already active"\<close>
  | ErrNotRunning               \<comment> \<open>"AMDP session not running"\<close>
  | ErrChannelTimeout           \<comment> \<open>"command channel timeout"\<close>
  | ErrResponseTimeout          \<comment> \<open>"command response timeout"\<close>
  | ErrFetchCSRFToken error     \<comment> \<open>"failed to fetch CSRF token: %w"\<close>
  | ErrStartSession error       \<comment> \<open>"failed to start AMDP session: %w"\<close>
  | ErrNoCSRFToken              \<comment> \<open>"failed to get CSRF token"\<close>
  | ErrNoActiveSession          \<comment> \<open>"no active session"\<close>
  | ErrStatus string int string \<comment> \<open>"<prefix>: %d - %s" with status code and body\<close>
  | ErrParse string             \<comment> \<open>"session started but failed to parse response: %s"\<close>
  | ErrUnknownCommand int       \<comment> \<open>"unknown command: %d"\<close>
  | ErrNewRequest string        \<comment> \<open>error of \<open>http.NewRequestWithContext\<close>\<close>
  | ErrDo string                \<comment> \<open>error of \<open>httpClient.Do\<close>\<close>
  | ErrRead string              \<comment> \<open>error of \<open>io.ReadAll\<close>\<close>

text \<open>The \<open>Data\<close> field of a response is an \<open>interface{}\<close>; these are the shapes the
  handlers put there (\<open>None\<close> inside is the nil map, pointer or slice of a failed call).\<close>

datatype payload =
    NoData
  | StepData "(string \<times> string) option"   \<comment> \<open>the map with keys stepType and response\<close>
  | StateData "AMDPSessionState option"
  | RawData "string option"                 \<comment> \<open>one map with key response\<close>

record AMDPResponse =
  Success :: bool
  Data :: payload
  Error :: "error option"

text \<open>The zero value \<open>AMDPResponse{}\<close>.\<close>

definition empty_response :: AMDPResponse where
  "empty_response = \<lparr>Success = False, Data = NoData, Error = None\<rparr>"

text \<open>
  A command carries its private reply channel. Channels made by \<open>SendCommand\<close> are
  numbered in the order of their creation; \<open>Response\<close> is that number.
\<close>

record AMDPCommand =
  Type :: AMDPCommandType
  Args :: args
  Response :: nat

text \<open>What the remote side does with one HTTP request.\<close>

record http_response =
  StatusCode :: int
  XCSRFToken :: string          \<comment> \<open>\<open>resp.Header.Get("X-CSRF-Token")\<close>, empty when absent\<close>
  Body :: string                \<comment> \<open>the bytes \<open>io.ReadAll\<close> returns\<close>
  ReadErr :: "string option"    \<comment> \<open>the error \<open>io.ReadAll\<close> returns\<close>

datatype http_outcome = DoError string | DoResponse http_response

text \<open>Requests handed to \<open>httpClient.Do\<close>.\<close>

datatype remote_call =
    CallFetchToken
  | CallStartSession string string
  | CallStep string string
  | CallGetStatus string
  | CallGetVariables string
  | CallGetBreakpoints string
  | CallSetBreakpoint string string int
  | CallStopSession string
  | CallHardStop string
  | CallKeepalive string

text \<open>
  The manager. \<open>running\<close>, \<open>state\<close>, \<open>cmdChannel\<close>, \<open>csrfToken\<close> and \<open>cancel\<close> are the
  fields of the Go struct: \<open>cmdChannel\<close> is \<open>None\<close> for nil and otherwise holds the
  commands buffered in the channel, oldest first; \<open>cancel\<close> tells whether the cancel
  function is set. The rest is what the Go runtime and the environment hold:
  \<^item> \<open>urlError\<close>: the error \<open>http.NewRequestWithContext\<close> returns for the URLs built
    from \<open>baseURL\<close> and \<open>client\<close> (\<open>None\<close> when they parse); the path segment taken from
    the main id is escaped, so the outcome depends on the two configured strings only;
  \<^item> \<open>ctxDone\<close>: whether the session context has been cancelled;
  \<^item> \<open>workers\<close>: the number of live \<open>processCommands\<close> goroutines;
  \<^item> \<open>calls\<close>: the requests handed to \<open>httpClient.Do\<close> so far;
  \<^item> \<open>cleanups\<close>: how many times \<open>cleanup\<close> has run;
  \<^item> \<open>nextChan\<close>, \<open>replies\<close>, \<open>delivered\<close>: the reply channels made so far, the content
    of each one's buffer (capacity 1), and how many sends each one has accepted.
\<close>

record manager =
  running :: bool
  state :: AMDPSessionState
  cmdChannel :: "AMDPCommand list option"
  csrfToken :: string
  cancel :: bool
  urlError :: "string option"
  ctxDone :: bool
  workers :: nat
  calls :: "remote_call list"
  cleanups :: nat
  nextChan :: nat
  replies :: "nat \<Rightarrow> AMDPResponse list"
  delivered :: "nat \<Rightarrow> nat"

definition NewAMDPSessionManager :: "string option \<Rightarrow> manager" where
  "NewAMDPSessionManager uerr =
     \<lparr>running = False, state = empty_state, cmdChannel = None, csrfToken = '''',
      cancel = False, urlError = uerr, ctxDone = False, workers = 0, calls = [],
      cleanups = 0, nextChan = 0, replies = (\<lambda>_. []), delivered = (\<lambda>_. 0)\<rparr>"

definition IsRunning :: "manager \<Rightarrow> bool" where
  "IsRunning m = running m"

definition State :: "manager \<Rightarrow> AMDPSessionState" where
  "State m = state m"

text \<open>Appending to the log what \<open>httpClient.Do\<close> is called with.\<close>

definition do_call :: "remote_call \<Rightarrow> manager \<Rightarrow> manager" where
  "do_call c m = m\<lparr>calls := calls m @ [c]\<rparr>"

subsection \<open>Remote operations\<close>

text \<open>
  \<open>fetchCSRFToken\<close>: a HEAD request with header \<open>X-CSRF-Token: fetch\<close>. The token of the
  answer is stored before it is looked at; an empty token or the token \<open>unsafe\<close> is an
  error.
\<close>

definition fetchCSRFToken :: "http_outcome \<Rightarrow> manager \<Rightarrow> error option \<times> manager" where
  "fetchCSRFToken r m =
     (case urlError m of
        Some e \<Rightarrow> (Some (ErrNewRequest e), m)
      | None \<Rightarrow>
          let m1 = do_call CallFetchToken m in
          (case r of
             DoError e \<Rightarrow> (Some (ErrDo e), m1)
           | DoResponse resp \<Rightarrow>
               let m2 = m1\<lparr>csrfToken := XCSRFToken resp\<rparr> in
               if csrfToken m2 = '''' \<or> csrfToken m2 = ''unsafe''
               then (Some ErrNoCSRFToken, m2)
               else (None, m2)))"

text \<open>
  \<open>initiateSession\<close>: a POST of the start configuration. \<open>xml.Unmarshal\<close> into the struct
  with fields \<open>sessionId\<close> and \<open>mainId\<close> is library code; it is the parameter \<open>unm\<close>,
  which gives both strings, or \<open>None\<close> where the library reports an error.
\<close>

type_synonym unmarshal = "string \<Rightarrow> (string \<times> string) option"

definition initiateSession ::
  "unmarshal \<Rightarrow> string \<Rightarrow> string \<Rightarrow> http_outcome \<Rightarrow> manager \<Rightarrow> error option \<times> manager" where
  "initiateSession unm objectURI user r m =
     (case urlError m of
        Some e \<Rightarrow> (Some (ErrNewRequest e), m)
      | None \<Rightarrow>
          let m1 = do_call (CallStartSession objectURI user) m in
          (case r of
             DoError e \<Rightarrow> (Some (ErrDo e), m1)
           | DoResponse resp \<Rightarrow>
               if StatusCode resp \<noteq> 200 \<and> StatusCode resp \<noteq> 201
               then (Some (ErrStatus ''failed to start session'' (StatusCode resp) (Body resp)), m1)
               else (case ReadErr resp of
                       Some e \<Rightarrow> (Some (ErrRead e), m1)
                     | None \<Rightarrow>
                         (case unm (Body resp) of
                            None \<Rightarrow> (Some (ErrParse (Body resp)), m1)
                          | Some (sid, mid) \<Rightarrow>
                              (None, m1\<lparr>state := (state m1)\<lparr>SessionID := sid, MainID := mid,
                                                              Status := ''running''\<rparr>\<rparr>)))))"

definition step ::
  "http_outcome \<Rightarrow> string \<Rightarrow> manager \<Rightarrow> ((string \<times> string) option \<times> error option) \<times> manager" where
  "step r stepType m =
     (let mainID = MainID (state m) in
      if mainID = '''' then ((None, Some ErrNoActiveSession), m)
      else (case urlError m of
              Some e \<Rightarrow> ((None, Some (ErrNewRequest e)), m)
            | None \<Rightarrow>
                let m1 = do_call (CallStep mainID stepType) m in
                (case r of
                   DoError e \<Rightarrow> ((None, Some (ErrDo e)), m1)
                 | DoResponse resp \<Rightarrow>
                     if StatusCode resp \<noteq> 200
                     then ((None, Some (ErrStatus ''step failed'' (StatusCode resp) (Body resp))), m1)
                     else ((Some (stepType, Body resp), None), m1))))"

text \<open>\<open>getStatus\<close> asks the remote side and, when that answers 200, returns a copy of the
  state the manager already holds.\<close>

definition getStatus ::
  "http_outcome \<Rightarrow> manager \<Rightarrow> (AMDPSessionState option \<times> error option) \<times> manager" where
  "getStatus r m =
     (let mainID = MainID (state m) in
      if mainID = '''' then ((None, Some ErrNoActiveSession), m)
      else (case urlError m of
              Some e \<Rightarrow> ((None, Some (ErrNewRequest e)), m)
            | None \<Rightarrow>
                let m1 = do_call (CallGetStatus mainID) m in
                (case r of
                   DoError e \<Rightarrow> ((None, Some (ErrDo e)), m1)
                 | DoResponse resp \<Rightarrow>
                     if StatusCode resp \<noteq> 200
                     then ((None, Some (ErrStatus ''get status failed'' (StatusCode resp) (Body resp))), m1)
                     else ((Some (state m1), None), m1))))"

definition getVariables ::
  "http_outcome \<Rightarrow> manager \<Rightarrow> (string option \<times> error option) \<times> manager" where
  "getVariables r m =
     (let mainID = MainID (state m) in
      if mainID = '''' then ((None, Some ErrNoActiveSession), m)
      else (case urlError m of
              Some e \<Rightarrow> ((None, Some (ErrNewRequest e)), m)
            | None \<Rightarrow>
                let m1 = do_call (CallGetVariables mainID) m in
                (case r of
                   DoError e \<Rightarrow> ((None, Some (ErrDo e)), m1)
                 | DoResponse resp \<Rightarrow>
                     if StatusCode resp \<noteq> 200
                     then ((None, Some (ErrStatus ''get variables failed'' (StatusCode resp) (Body resp))), m1)
                     else ((Some (Body resp), None), m1))))"

definition getBreakpoints ::
  "http_outcome \<Rightarrow> manager \<Rightarrow> (string option \<times> error option) \<times> manager" where
  "getBreakpoints r m =
     (let mainID = MainID (state m) in
      if mainID = '''' then ((None, Some ErrNoActiveSession), m)
      else (case urlError m of
              Some e \<Rightarrow> ((None, Some (ErrNewRequest e)), m)
            | None \<Rightarrow>
                let m1 = do_call (CallGetBreakpoints mainID) m in
                (case r of
                   DoError e \<Rightarrow> ((None, Some (ErrDo e)), m1)
                 | DoResponse resp \<Rightarrow>
                     if StatusCode resp \<noteq> 200
                     then ((None, Some (ErrStatus ''get breakpoints failed'' (StatusCode resp) (Body resp))), m1)
                     else ((Some (Body resp), None), m1))))"

definition setBreakpoint ::
  "http_outcome \<Rightarrow> string \<Rightarrow> int \<Rightarrow> manager \<Rightarrow> error option \<times> manager" where
  "setBreakpoint r procName line m =
     (let mainID = MainID (state m) in
      if mainID = '''' then (Some ErrNoActiveSession, m)
      else (case urlError m of
              Some e \<Rightarrow> (Some (ErrNewRequest e), m)
            | None \<Rightarrow>
                let m1 = do_call (CallSetBreakpoint mainID procName line) m in
                (case r of
                   DoError e \<Rightarrow> (Some (ErrDo e), m1)
                 | DoResponse resp \<Rightarrow>
                     if StatusCode resp \<noteq> 200 \<and> StatusCode resp \<noteq> 201
                     then (Some (ErrStatus ''set breakpoint failed'' (StatusCode resp) (Body resp)), m1)
                     else (None, m1))))"

text \<open>\<open>stopSession\<close>: with no main id the session counts as stopped already; 200, 204
  and 404 are accepted.\<close>

definition stopSession :: "http_outcome \<Rightarrow> manager \<Rightarrow> error option \<times> manager" where
  "stopSession r m =
     (let mainID = MainID (state m) in
      if mainID = '''' then (None, m)
      else (case urlError m of
              Some e \<Rightarrow> (Some (ErrNewRequest e), m)
            | None \<Rightarrow>
                let m1 = do_call (CallStopSession mainID) m in
                (case r of
                   DoError e \<Rightarrow> (Some (ErrDo e), m1)
                 | DoResponse resp \<Rightarrow>
                     if StatusCode resp \<noteq> 200 \<and> StatusCode resp \<noteq> 204 \<and> StatusCode resp \<noteq> 404
                     then (Some (ErrStatus ''stop session failed'' (StatusCode resp) (Body resp)), m1)
                     else (None, m1))))"

text \<open>\<open>hardStop\<close> sends its DELETE when the request could be built and drops the answer.\<close>

definition hardStop :: "manager \<Rightarrow> manager" where
  "hardStop m =
     (let mainID = MainID (state m) in
      if mainID = '''' then m
      else (case urlError m of
              Some e \<Rightarrow> m
            | None \<Rightarrow> do_call (CallHardStop mainID) m))"

text \<open>\<open>sendKeepalive\<close> sends a GET and ignores what comes back.\<close>

definition sendKeepalive :: "http_outcome \<Rightarrow> manager \<Rightarrow> manager" where
  "sendKeepalive r m =
     (let mainID = MainID (state m) in
      if mainID = '''' then m
      else (case urlError m of
              Some e \<Rightarrow> m
            | None \<Rightarrow> do_call (CallKeepalive mainID) m))"

subsection \<open>Lifecycle: Start, Stop, cleanup\<close>

text \<open>
  \<open>Start\<close>. The check of \<open>running\<close> and the initialisation of the state happen under the
  lock; the two remote calls follow, each undoing \<open>running\<close> and nothing else when it
  fails; the worker goroutine is started last.
\<close>

definition Start ::
  "unmarshal \<Rightarrow> string \<Rightarrow> string \<Rightarrow> string \<Rightarrow> http_outcome \<Rightarrow> http_outcome \<Rightarrow> manager
     \<Rightarrow> error option \<times> manager" where
  "Start unm objectURI user password r1 r2 m =
     (if running m then (Some ErrAlreadyActive, m)
      else
        let m1 = m\<lparr>running := True, cmdChannel := Some [],
                   state := empty_state\<lparr>ObjectURI := objectURI, Status := ''starting''\<rparr>\<rparr>;
            m2 = m1\<lparr>cancel := True, ctxDone := False\<rparr>
        in (case fetchCSRFToken r1 m2 of
              (Some err, m3) \<Rightarrow> (Some (ErrFetchCSRFToken err), m3\<lparr>running := False\<rparr>)
            | (None, m3) \<Rightarrow>
                (case initiateSession unm objectURI user r2 m3 of
                   (Some err, m4) \<Rightarrow> (Some (ErrStartSession err), m4\<lparr>running := False\<rparr>)
                 | (None, m4) \<Rightarrow> (None, m4\<lparr>workers := workers m4 + 1\<rparr>))))"

text \<open>\<open>Stop\<close> cancels the session context and returns at once; it never fails.\<close>

definition Stop :: "manager \<Rightarrow> error option \<times> manager" where
  "Stop m =
     (if \<not> running m then (None, m)
      else if cancel m then (None, m\<lparr>ctxDone := True\<rparr>)
      else (None, m))"

definition cleanup :: "manager \<Rightarrow> manager" where
  "cleanup m =
     (let m1 = (if MainID (state m) \<noteq> '''' then hardStop m else m)
      in m1\<lparr>running := False, state := empty_state, cmdChannel := None,
            cleanups := cleanups m1 + 1\<rparr>)"

subsection \<open>The worker\<close>

definition handleCommand :: "http_outcome \<Rightarrow> AMDPCommand \<Rightarrow> manager \<Rightarrow> AMDPResponse \<times> manager" where
  "handleCommand r cmd m =
     (if Type cmd = AMDPCmdStep then
        (case step r (arg_string (Args cmd) ''step_type'') m of
           ((result, err), m') \<Rightarrow>
             (\<lparr>Success = (err = None), Data = StepData result, Error = err\<rparr>, m'))
      else if Type cmd = AMDPCmdGetStatus then
        (case getStatus r m of
           ((status, err), m') \<Rightarrow>
             (\<lparr>Success = (err = None), Data = StateData status, Error = err\<rparr>, m'))
      else if Type cmd = AMDPCmdGetVariables then
        (case getVariables r m of
           ((vars, err), m') \<Rightarrow>
             (\<lparr>Success = (err = None), Data = RawData vars, Error = err\<rparr>, m'))
      else if Type cmd = AMDPCmdGetBreakpoints then
        (case getBreakpoints r m of
           ((bps, err), m') \<Rightarrow>
             (\<lparr>Success = (err = None), Data = RawData bps, Error = err\<rparr>, m'))
      else if Type cmd = AMDPCmdSetBreakpoint then
        (case setBreakpoint r (arg_string (Args cmd) ''proc_name'') (arg_int (Args cmd) ''line'') m of
           (err, m') \<Rightarrow> (\<lparr>Success = (err = None), Data = NoData, Error = err\<rparr>, m'))
      else if Type cmd = AMDPCmdStop then
        (case stopSession r m of
           (err, m') \<Rightarrow> (\<lparr>Success = (err = None), Data = NoData, Error = err\<rparr>, m'))
      else (\<lparr>Success = False, Data = NoData, Error = Some (ErrUnknownCommand (Type cmd))\<rparr>, m))"

text \<open>
  The communication \<open>cmd.Response <- resp\<close> on a reply channel, which \<open>SendCommand\<close> makes
  with capacity 1. It can proceed when the buffer has room, and then the value is in the
  buffer; with the buffer occupied it cannot proceed (\<open>None\<close>), and a goroutine that
  executes it as a statement of its own waits there.
\<close>

definition chan_send :: "nat \<Rightarrow> AMDPResponse \<Rightarrow> manager \<Rightarrow> manager option" where
  "chan_send k resp m =
     (if length (replies m k) < 1
      then Some (m\<lparr>replies := (replies m)(k := replies m k @ [resp]),
                   delivered := (delivered m)(k := delivered m k + 1)\<rparr>)
      else None)"

text \<open>
  The send of the reply as the worker writes it:
  \<open>select { case cmd.Response <- resp: default: }\<close>. The communication is made when it can
  proceed; when it cannot, the \<open>default\<close> case is taken, the response is dropped and the
  manager is as before. Either way the statement is over at once.
\<close>

definition try_send :: "nat \<Rightarrow> AMDPResponse \<Rightarrow> manager \<Rightarrow> manager" where
  "try_send k resp m =
     (case chan_send k resp m of
        Some m' \<Rightarrow> m'
      | None \<Rightarrow> m)"

text \<open>
  One pass through the \<open>select\<close> of the loop. The argument says which case the \<open>select\<close>
  takes and what happens inside it: the call made there completes with an HTTP outcome, or
  a panic is raised in it. A case that is not ready (the context not cancelled, no command
  buffered, a nil channel) is not taken: the worker keeps waiting, and the pass changes
  nothing. The manager sets \<open>cmdChannel\<close> to nil in the same critical section that closes
  the channel, so a receive through that field never sees a closed channel.
\<close>

datatype 'a dispatch = Completes 'a | Panics string

datatype event = SelDone | SelTick "http_outcome dispatch" | SelRecv "http_outcome dispatch"

datatype loop_result = Continue manager | Return manager | Panic manager

definition loop_body :: "event \<Rightarrow> manager \<Rightarrow> loop_result" where
  "loop_body e m =
     (case e of
        SelDone \<Rightarrow> if ctxDone m then Return m else Continue m
      | SelTick d \<Rightarrow>
          (case d of
             Panics p \<Rightarrow> Panic m
           | Completes r \<Rightarrow> Continue (sendKeepalive r m))
      | SelRecv d \<Rightarrow>
          (case cmdChannel m of
             None \<Rightarrow> Continue m
           | Some [] \<Rightarrow> Continue m
           | Some (cmd # q) \<Rightarrow>
               let m1 = m\<lparr>cmdChannel := Some q\<rparr> in
               (case d of
                  Panics p \<Rightarrow> Panic m1
                | Completes r \<Rightarrow>
                    (case handleCommand r cmd m1 of
                       (resp, m2) \<Rightarrow>
                         let m3 = try_send (Response cmd) resp m2 in
                         if Type cmd = AMDPCmdStop then Return m3 else Continue m3))))"

text \<open>The manager a pass of the loop ends with.\<close>

fun result_manager :: "loop_result \<Rightarrow> manager" where
  "result_manager (Continue m) = m"
| "result_manager (Return m) = m"
| "result_manager (Panic m) = m"

text \<open>
  \<open>processCommands\<close>: the loop, run along a list of passes. The deferred function recovers a
  panic and calls \<open>cleanup\<close>, so both a return and a panic end in \<open>cleanup\<close>. The first
  component of the result tells whether the function has returned; it is \<open>False\<close> when
  the list is used up with the worker still waiting in its \<open>select\<close>.
\<close>

fun processCommands :: "event list \<Rightarrow> manager \<Rightarrow> bool \<times> manager" where
  "processCommands [] m = (False, m)"
| "processCommands (e # es) m =
     (case loop_body e m of
        Continue m' \<Rightarrow> processCommands es m'
      | Return m' \<Rightarrow> (True, cleanup m')
      | Panic m' \<Rightarrow> (True, cleanup m'))"

text \<open>The goroutine started by \<open>go m.processCommands(sessionCtx)\<close>: it is gone once the
  function has returned.\<close>

definition worker_run :: "event list \<Rightarrow> manager \<Rightarrow> manager" where
  "worker_run es m =
     (if workers m = 0 then m
      else (case processCommands es m of
              (True, m') \<Rightarrow> m'\<lparr>workers := workers m' - 1\<rparr>
            | (False, m') \<Rightarrow> m'))"

subsection \<open>SendCommand\<close>

text \<open>
  The first half of \<open>SendCommand\<close>, up to the hand-over to the command channel (capacity
  10). A send that finds the buffer full, or a nil channel, ends in the five-second
  timeout.
\<close>

definition SendCommand_enqueue ::
  "AMDPCommandType \<Rightarrow> args \<Rightarrow> manager \<Rightarrow> (error + nat) \<times> manager" where
  "SendCommand_enqueue cmdType a m =
     (if \<not> running m then (Inl ErrNotRunning, m)
      else
        let k = nextChan m;
            m1 = m\<lparr>nextChan := k + 1, replies := (replies m)(k := [])\<rparr>
        in (case cmdChannel m of
              None \<Rightarrow> (Inl ErrChannelTimeout, m1)
            | Some q \<Rightarrow>
                if length q < 10
                then (Inr k, m1\<lparr>cmdChannel := Some (q @ [\<lparr>Type = cmdType, Args = a, Response = k\<rparr>])\<rparr>)
                else (Inl ErrChannelTimeout, m1)))"

text \<open>The second half: take the reply out of the private channel, or give up after the
  sixty-second timeout.\<close>

definition SendCommand_await :: "nat \<Rightarrow> manager \<Rightarrow> (AMDPResponse \<times> error option) \<times> manager" where
  "SendCommand_await k m =
     (case replies m k of
        resp # rest \<Rightarrow> ((resp, None), m\<lparr>replies := (replies m)(k := rest)\<rparr>)
      | [] \<Rightarrow> ((empty_response, Some ErrResponseTimeout), m))"

text \<open>\<open>SendCommand\<close> as a whole; \<open>es\<close> is what the worker does while the caller waits.\<close>

definition SendCommand ::
  "AMDPCommandType \<Rightarrow> args \<Rightarrow> event list \<Rightarrow> manager \<Rightarrow> (AMDPResponse \<times> error option) \<times> manager" where
  "SendCommand cmdType a es m =
     (case SendCommand_enqueue cmdType a m of
        (Inl e, m1) \<Rightarrow> ((empty_response, Some e), m1)
      | (Inr k, m1) \<Rightarrow> SendCommand_await k (worker_run es m1))"

subsection \<open>Runs of the whole manager\<close>

text \<open>
  What callers, the environment and the worker do to one manager, in the order in which it
  happens. \<open>ActCancel\<close> is the cancellation of the context that was passed to \<open>Start\<close>.
\<close>

datatype action =
    ActStart string string string http_outcome http_outcome
  | ActStop
  | ActCancel
  | ActEnqueue AMDPCommandType args
  | ActAwait nat
  | ActSendCommand AMDPCommandType args "event list"
  | ActWorker "event list"

fun apply_action :: "unmarshal \<Rightarrow> action \<Rightarrow> manager \<Rightarrow> manager" where
  "apply_action unm (ActStart objectURI user password r1 r2) m =
     snd (Start unm objectURI user password r1 r2 m)"
| "apply_action unm ActStop m = snd (Stop m)"
| "apply_action unm ActCancel m = m\<lparr>ctxDone := True\<rparr>"
| "apply_action unm (ActEnqueue cmdType a) m = snd (SendCommand_enqueue cmdType a m)"
| "apply_action unm (ActAwait k) m = snd (SendCommand_await k m)"
| "apply_action unm (ActSendCommand cmdType a es) m = snd (SendCommand cmdType a es m)"
| "apply_action unm (ActWorker es) m = worker_run es m"

fun exec :: "unmarshal \<Rightarrow> action list \<Rightarrow> manager \<Rightarrow> manager" where
  "exec unm [] m = m"
| "exec unm (a # as) m = exec unm as (apply_action unm a m)"

subsection \<open>Predicates of the specification\<close>

text \<open>The number of hard-stop requests sent so far.\<close>

fun isHardStop :: "remote_call \<Rightarrow> bool" where
  "isHardStop (CallHardStop _) = True"
| "isHardStop _ = False"

fun isStartSession :: "remote_call \<Rightarrow> bool" where
  "isStartSession (CallStartSession _ _) = True"
| "isStartSession _ = False"

definition hardStops :: "manager \<Rightarrow> nat" where
  "hardStops m = length (filter isHardStop (calls m))"

text \<open>
  The statuses under which the specification expects a main id: Running, AtBreakpoint and
  Stopping, in the lower-case spelling of the source. The source itself only ever assigns
  \<open>starting\<close>, \<open>running\<close> and the empty string.
\<close>

definition active_status :: "string \<Rightarrow> bool" where
  "active_status s = (s = ''running'' \<or> s = ''breakpoint'' \<or> s = ''stopping'')"

definition state_inv :: "AMDPSessionState \<Rightarrow> bool" where
  "state_inv s = ((MainID s \<noteq> '''') = active_status (Status s))"

text \<open>
  The bookkeeping of the reply channels that every run maintains: a channel has accepted
  at most one send and holds no more than it has accepted; a channel not yet made has
  accepted none; the commands waiting in the command channel carry pairwise different
  reply channels, all of them made already and none of them sent to.
\<close>

definition chan_inv :: "manager \<Rightarrow> bool" where
  "chan_inv m =
     ((\<forall>k. length (replies m k) \<le> delivered m k \<and> delivered m k \<le> 1)
    \<and> (\<forall>k. nextChan m \<le> k \<longrightarrow> delivered m k = 0)
    \<and> (\<forall>q. cmdChannel m = Some q \<longrightarrow>
           distinct (map Response q)
         \<and> (\<forall>c \<in> set q. Response c < nextChan m \<and> delivered m (Response c) = 0)))"

subsection \<open>Sample inputs\<close>

text \<open>
  Concrete inputs for the closed theorems below. \<open>sample_unmarshal\<close> gives what
  \<open>xml.Unmarshal\<close> computes for two documents: one with both elements, and one without a
  \<open>mainId\<close> element, for which the decoder leaves the field at its zero value and
  reports no error.
\<close>

definition sample_unmarshal :: unmarshal where
  "sample_unmarshal b =
     (if b = ''<session><sessionId>S1</sessionId><mainId>M1</mainId></session>''
      then Some (''S1'', ''M1'')
      else if b = ''<session><sessionId>S1</sessionId></session>''
      then Some (''S1'', '''')
      else None)"

definition token_reply :: "string \<Rightarrow> http_outcome" where
  "token_reply t = DoResponse \<lparr>StatusCode = 200, XCSRFToken = t, Body = '''', ReadErr = None\<rparr>"

definition body_reply :: "int \<Rightarrow> string \<Rightarrow> http_outcome" where
  "body_reply code b = DoResponse \<lparr>StatusCode = code, XCSRFToken = '''', Body = b, ReadErr = None\<rparr>"

text \<open>A manager with a session running: the result of a successful \<open>Start\<close> on a fresh
  manager, written out.\<close>

definition running_session :: manager where
  "running_session =
     \<lparr>running = True,
      state = \<lparr>SessionID = ''S1'', MainID = ''M1'', ObjectURI = ''/sap/bc/adt/amdp/zcl_demo'',
               Status = ''running'', CurrentLine = 0, CurrentProc = ''''\<rparr>,
      cmdChannel = Some [], csrfToken = ''tok'', cancel = True, urlError = None,
      ctxDone = False, workers = 1,
      calls = [CallFetchToken, CallStartSession ''/sap/bc/adt/amdp/zcl_demo'' ''DEVELOPER''],
      cleanups = 0, nextChan = 0, replies = (\<lambda>_. []), delivered = (\<lambda>_. 0)\<rparr>"

definition step_over :: AMDPCommand where
  "step_over = \<lparr>Type = AMDPCmdStep, Args = [''step_type'' \<mapsto> StrArg ''over''], Response = 0\<rparr>"

text \<open>The running session with one step command waiting in the queue and its reply
  channel empty; and the same with the buffer of that reply channel occupied.\<close>

definition queued_session :: manager where
  "queued_session = running_session\<lparr>cmdChannel := Some [step_over], nextChan := 1\<rparr>"

definition occupied_session :: manager where
  "occupied_session =
     queued_session\<lparr>replies := (\<lambda>_. [])(0 := [empty_response]),
                    delivered := (\<lambda>_. 0)(0 := 1)\<rparr>"

lemmas cmd_defs =
  AMDPCmdStart_def AMDPCmdStop_def AMDPCmdStep_def AMDPCmdGetStatus_def
  AMDPCmdGetVariables_def AMDPCmdSetBreakpoint_def AMDPCmdGetBreakpoints_def

section \<open>Properties\<close>

subsection \<open>What the operations leave alone\<close>

lemma step_frame:
  "snd (step r st m) = m \<or> snd (step r st m) = do_call (CallStep (MainID (state m)) st) m"
  by (simp add: step_def Let_def split: option.splits http_outcome.splits)

lemma getStatus_frame:
  "snd (getStatus r m) = m \<or> snd (getStatus r m) = do_call (CallGetStatus (MainID (state m))) m"
  by (simp add: getStatus_def Let_def split: option.splits http_outcome.splits)

lemma getVariables_frame:
  "snd (getVariables r m) = m \<or> snd (getVariables r m) = do_call (CallGetVariables (MainID (state m))) m"
  by (simp add: getVariables_def Let_def split: option.splits http_outcome.splits)

lemma getBreakpoints_frame:
  "snd (getBreakpoints r m) = m
   \<or> snd (getBreakpoints r m) = do_call (CallGetBreakpoints (MainID (state m))) m"
  by (simp add: getBreakpoints_def Let_def split: option.splits http_outcome.splits)

lemma setBreakpoint_frame:
  "snd (setBreakpoint r p l m) = m
   \<or> snd (setBreakpoint r p l m) = do_call (CallSetBreakpoint (MainID (state m)) p l) m"
  by (simp add: setBreakpoint_def Let_def split: option.splits http_outcome.splits)

lemma stopSession_frame:
  "snd (stopSession r m) = m
   \<or> snd (stopSession r m) = do_call (CallStopSession (MainID (state m))) m"
  by (simp add: stopSession_def Let_def split: option.splits http_outcome.splits)

lemma handleCommand_frame:
  "snd (handleCommand r cmd m) = m
   \<or> (\<exists>c. \<not> isHardStop c \<and> snd (handleCommand r cmd m) = do_call c m)"
proof -
  have gen: "\<And>x c. x = m \<or> x = do_call c m \<Longrightarrow> \<not> isHardStop c \<Longrightarrow>
      x = m \<or> (\<exists>c. \<not> isHardStop c \<and> x = do_call c m)"
    by blast
  show ?thesis
    unfolding handleCommand_def
    using gen[OF step_frame] gen[OF getStatus_frame] gen[OF getVariables_frame]
      gen[OF getBreakpoints_frame] gen[OF setBreakpoint_frame] gen[OF stopSession_frame]
    by (simp add: split_beta)
qed


lemma handleCommand_fields [simp]:
  "state (snd (handleCommand r cmd m)) = state m"
  "running (snd (handleCommand r cmd m)) = running m"
  "cleanups (snd (handleCommand r cmd m)) = cleanups m"
  "urlError (snd (handleCommand r cmd m)) = urlError m"
  "workers (snd (handleCommand r cmd m)) = workers m"
  "nextChan (snd (handleCommand r cmd m)) = nextChan m"
  "cmdChannel (snd (handleCommand r cmd m)) = cmdChannel m"
  "replies (snd (handleCommand r cmd m)) = replies m"
  "delivered (snd (handleCommand r cmd m)) = delivered m"
  "ctxDone (snd (handleCommand r cmd m)) = ctxDone m"
  "hardStops (snd (handleCommand r cmd m)) = hardStops m"
  using handleCommand_frame[of r cmd m] by (auto simp: do_call_def hardStops_def)

lemma sendKeepalive_fields [simp]:
  "state (sendKeepalive r m) = state m"
  "running (sendKeepalive r m) = running m"
  "cleanups (sendKeepalive r m) = cleanups m"
  "urlError (sendKeepalive r m) = urlError m"
  "workers (sendKeepalive r m) = workers m"
  "nextChan (sendKeepalive r m) = nextChan m"
  "cmdChannel (sendKeepalive r m) = cmdChannel m"
  "replies (sendKeepalive r m) = replies m"
  "delivered (sendKeepalive r m) = delivered m"
  "ctxDone (sendKeepalive r m) = ctxDone m"
  "hardStops (sendKeepalive r m) = hardStops m"
  by (simp_all add: sendKeepalive_def do_call_def hardStops_def Let_def split: option.splits)

lemma try_send_fields [simp]:
  "state (try_send k resp m) = state m"
  "running (try_send k resp m) = running m"
  "cleanups (try_send k resp m) = cleanups m"
  "urlError (try_send k resp m) = urlError m"
  "workers (try_send k resp m) = workers m"
  "nextChan (try_send k resp m) = nextChan m"
  "cmdChannel (try_send k resp m) = cmdChannel m"
  "ctxDone (try_send k resp m) = ctxDone m"
  "hardStops (try_send k resp m) = hardStops m"
  by (simp_all add: try_send_def chan_send_def hardStops_def)

lemma hardStops_cmdChannel [simp]: "hardStops (m\<lparr>cmdChannel := q\<rparr>) = hardStops m"
  by (simp add: hardStops_def)

lemma loop_body_fields [simp]:
  "state (result_manager (loop_body e m)) = state m"
  "running (result_manager (loop_body e m)) = running m"
  "cleanups (result_manager (loop_body e m)) = cleanups m"
  "urlError (result_manager (loop_body e m)) = urlError m"
  "workers (result_manager (loop_body e m)) = workers m"
  "nextChan (result_manager (loop_body e m)) = nextChan m"
  "ctxDone (result_manager (loop_body e m)) = ctxDone m"
  "hardStops (result_manager (loop_body e m)) = hardStops m"
  by (simp_all add: loop_body_def Let_def split_beta
      split: event.splits dispatch.splits option.splits list.splits)

lemma cleanup_fields [simp]:
  "state (cleanup m) = empty_state"
  "running (cleanup m) = False"
  "cmdChannel (cleanup m) = None"
  "cleanups (cleanup m) = cleanups m + 1"
  "urlError (cleanup m) = urlError m"
  "workers (cleanup m) = workers m"
  "nextChan (cleanup m) = nextChan m"
  "replies (cleanup m) = replies m"
  "delivered (cleanup m) = delivered m"
  "ctxDone (cleanup m) = ctxDone m"
  by (simp_all add: cleanup_def hardStop_def do_call_def Let_def split: option.splits)

lemma cleanup_hardStops:
  "hardStops (cleanup m) =
     hardStops m + (if MainID (state m) \<noteq> [] \<and> urlError m = None then 1 else 0)"
  by (simp add: cleanup_def hardStop_def do_call_def hardStops_def Let_def split: option.splits)

lemma processCommands_returned:
  "fst (processCommands es m) \<Longrightarrow>
     state (snd (processCommands es m)) = empty_state
   \<and> \<not> running (snd (processCommands es m))
   \<and> cmdChannel (snd (processCommands es m)) = None
   \<and> cleanups (snd (processCommands es m)) = cleanups m + 1
   \<and> hardStops (snd (processCommands es m)) =
        hardStops m + (if MainID (state m) \<noteq> [] \<and> urlError m = None then 1 else 0)"
proof (induction es arbitrary: m)
  case Nil
  then show ?case by simp
next
  case (Cons e es)
  show ?case
  proof (cases "loop_body e m")
    case (Continue m')
    have f: "state m' = state m" "cleanups m' = cleanups m" "urlError m' = urlError m"
      "hardStops m' = hardStops m"
      using loop_body_fields[of e m] Continue by simp_all
    from Cons.prems Continue have "fst (processCommands es m')" by simp
    from Cons.IH[OF this] show ?thesis using Continue f by simp
  next
    case (Return m')
    have f: "state m' = state m" "cleanups m' = cleanups m" "urlError m' = urlError m"
      "hardStops m' = hardStops m"
      using loop_body_fields[of e m] Return by simp_all
    show ?thesis using Return f by (simp add: cleanup_hardStops)
  next
    case (Panic m')
    have f: "state m' = state m" "cleanups m' = cleanups m" "urlError m' = urlError m"
      "hardStops m' = hardStops m"
      using loop_body_fields[of e m] Panic by simp_all
    show ?thesis using Panic f by (simp add: cleanup_hardStops)
  qed
qed

lemma processCommands_waiting:
  "\<not> fst (processCommands es m) \<Longrightarrow>
     state (snd (processCommands es m)) = state m
   \<and> running (snd (processCommands es m)) = running m
   \<and> cleanups (snd (processCommands es m)) = cleanups m
   \<and> hardStops (snd (processCommands es m)) = hardStops m"
proof (induction es arbitrary: m)
  case Nil
  then show ?case by simp
next
  case (Cons e es)
  show ?case
  proof (cases "loop_body e m")
    case (Continue m')
    have f: "state m' = state m" "cleanups m' = cleanups m" "running m' = running m"
      "hardStops m' = hardStops m"
      using loop_body_fields[of e m] Continue by simp_all
    from Cons.prems Continue have "\<not> fst (processCommands es m')" by simp
    from Cons.IH[OF this] show ?thesis using Continue f by simp
  next
    case (Return m')
    then show ?thesis using Cons.prems by simp
  next
    case (Panic m')
    then show ?thesis using Cons.prems by simp
  qed
qed

lemma processCommands_append:
  "processCommands (es1 @ es2) m =
     (case processCommands es1 m of
        (True, m') \<Rightarrow> (True, m')
      | (False, m') \<Rightarrow> processCommands es2 m')"
  by (induction es1 arbitrary: m) (simp_all split: loop_result.splits)

subsection \<open>The sample session is a started one\<close>

lemma running_session_started:
  "Start sample_unmarshal ''/sap/bc/adt/amdp/zcl_demo'' ''DEVELOPER'' ''secret''
      (token_reply ''tok'')
      (body_reply 201 ''<session><sessionId>S1</sessionId><mainId>M1</mainId></session>'')
      (NewAMDPSessionManager None)
   = (None, running_session)"
  by (simp add: Start_def NewAMDPSessionManager_def fetchCSRFToken_def initiateSession_def
      do_call_def token_reply_def body_reply_def sample_unmarshal_def running_session_def
      empty_state_def Let_def)

subsection \<open>Cleanup after the worker has returned\<close>

text \<open>
  C1. Once \<open>processCommands\<close> has returned, for whatever reason, \<open>cleanup\<close> has run exactly
  once since the worker was started: one hard-stop request has been sent when the main id
  was non-empty and the request could be built, and none otherwise; the session state is
  the empty value; the running flag is off; and every \<open>SendCommand\<close> on the manager it
  leaves behind returns the not-running error.
\<close>

theorem cleanup_once_after_exit:
  assumes "fst (processCommands es m)"
  shows "cleanups (snd (processCommands es m)) = cleanups m + 1
       \<and> hardStops (snd (processCommands es m))
           = hardStops m + (if MainID (State m) \<noteq> [] \<and> urlError m = None then 1 else 0)
       \<and> State (snd (processCommands es m)) = empty_state
       \<and> \<not> IsRunning (snd (processCommands es m))
       \<and> (\<forall>cmdType a es'.
             SendCommand cmdType a es' (snd (processCommands es m))
               = ((empty_response, Some ErrNotRunning), snd (processCommands es m)))"
  using processCommands_returned[OF assms]
  by (simp add: State_def IsRunning_def SendCommand_def SendCommand_enqueue_def)

theorem cleanup_once_after_exit_witness:
  "fst (processCommands [SelTick (Completes (DoError ''timeout'')), SelDone] (snd (Stop running_session)))
   \<and> cleanups (snd (processCommands [SelTick (Completes (DoError ''timeout'')), SelDone]
        (snd (Stop running_session)))) = 1
   \<and> hardStops (snd (processCommands [SelTick (Completes (DoError ''timeout'')), SelDone]
        (snd (Stop running_session)))) = 1
   \<and> \<not> IsRunning (snd (processCommands [SelTick (Completes (DoError ''timeout'')), SelDone]
        (snd (Stop running_session))))"
proof -
  have h: "fst (processCommands [SelTick (Completes (DoError ''timeout'')), SelDone]
             (snd (Stop running_session)))"
    by (simp add: Stop_def running_session_def loop_body_def sendKeepalive_def do_call_def Let_def)
  have c: "cleanups (snd (Stop running_session)) = 0"
    "hardStops (snd (Stop running_session)) = 0"
    "MainID (State (snd (Stop running_session))) = ''M1''"
    "urlError (snd (Stop running_session)) = None"
    by (simp_all add: Stop_def running_session_def hardStops_def State_def)
  from cleanup_once_after_exit[OF h] h c show ?thesis by simp
qed

text \<open>The three ways out of the loop: the cancelled context, a Stop command, a panic.\<close>

lemma returns_on_cancel:
  "ctxDone m \<Longrightarrow> processCommands (SelDone # es) m = (True, cleanup m)"
  by (simp add: loop_body_def)

lemma returns_on_stop_command:
  "cmdChannel m = Some (cmd # q) \<Longrightarrow> Type cmd = AMDPCmdStop \<Longrightarrow>
     fst (processCommands (SelRecv (Completes r) # es) m)"
  by (simp add: loop_body_def Let_def split_beta)

lemma returns_on_panic:
  "cmdChannel m = Some (cmd # q) \<Longrightarrow>
     processCommands (SelRecv (Panics p) # es) m = (True, cleanup (m\<lparr>cmdChannel := Some q\<rparr>))"
  "processCommands (SelTick (Panics p) # es) m = (True, cleanup m)"
  by (simp_all add: loop_body_def)

subsection \<open>Start on a running manager\<close>

text \<open>
  C2. On a manager with a session active, \<open>Start\<close> returns the already-active error and
  leaves the manager as it was; in particular the session state and its main id are
  unchanged.
\<close>

theorem Start_already_running:
  assumes "IsRunning m"
  shows "Start unm objectURI user password r1 r2 m = (Some ErrAlreadyActive, m)
       \<and> State (snd (Start unm objectURI user password r1 r2 m)) = State m
       \<and> MainID (State (snd (Start unm objectURI user password r1 r2 m))) = MainID (State m)"
  using assms by (simp add: Start_def IsRunning_def)

theorem Start_already_running_witness:
  "IsRunning running_session
   \<and> Start sample_unmarshal ''/sap/bc/adt/amdp/zcl_other'' ''DEVELOPER'' ''secret''
        (token_reply ''tok2'') (body_reply 201 []) running_session
       = (Some ErrAlreadyActive, running_session)
   \<and> MainID (State (snd (Start sample_unmarshal ''/sap/bc/adt/amdp/zcl_other'' ''DEVELOPER''
        ''secret'' (token_reply ''tok2'') (body_reply 201 []) running_session))) = ''M1''"
proof -
  have h: "IsRunning running_session"
    by (simp add: IsRunning_def running_session_def)
  have s: "MainID (State running_session) = ''M1''"
    by (simp add: State_def running_session_def)
  from Start_already_running[OF h, of sample_unmarshal "''/sap/bc/adt/amdp/zcl_other''"
      "''DEVELOPER''" "''secret''" "token_reply ''tok2''" "body_reply 201 []"] h s
  show ?thesis by simp
qed

subsection \<open>SendCommand without a session\<close>

text \<open>
  C3. On a manager that is not running, \<open>SendCommand\<close> of any command type with any
  arguments returns the not-running error, whatever the worker schedule, and the manager,
  with its log of remote requests, is unchanged.
\<close>

theorem SendCommand_not_running:
  assumes "\<not> IsRunning m"
  shows "SendCommand cmdType a es m = ((empty_response, Some ErrNotRunning), m)
       \<and> calls (snd (SendCommand cmdType a es m)) = calls m"
  using assms by (simp add: SendCommand_def SendCommand_enqueue_def IsRunning_def)

theorem SendCommand_not_running_witness:
  "\<not> IsRunning (cleanup running_session)
   \<and> SendCommand AMDPCmdGetVariables Map.empty [SelRecv (Completes (body_reply 200 ''<vars/>''))]
        (cleanup running_session)
       = ((empty_response, Some ErrNotRunning), cleanup running_session)"
proof -
  have h: "\<not> IsRunning (cleanup running_session)"
    by (simp add: IsRunning_def)
  from SendCommand_not_running[OF h] h show ?thesis by simp
qed

subsection \<open>Start failing on the token\<close>

text \<open>What \<open>Start\<close> returns and leaves behind when the token fetch fails.\<close>

lemma Start_fetch_failure:
  assumes "\<not> running m" and "fst (fetchCSRFToken r1 m) = Some e"
  shows "\<exists>cs tok. Start unm objectURI user password r1 r2 m =
           (Some (ErrFetchCSRFToken e),
            m\<lparr>running := False, cmdChannel := Some [],
              state := empty_state\<lparr>ObjectURI := objectURI, Status := ''starting''\<rparr>,
              cancel := True, ctxDone := False, calls := calls m @ cs, csrfToken := tok\<rparr>)
         \<and> (cs = [] \<or> cs = [CallFetchToken])"
proof (cases "urlError m")
  case (Some u)
  with assms show ?thesis
    by (auto simp: Start_def fetchCSRFToken_def Let_def intro!: exI[of _ "[]"] exI[of _ "csrfToken m"])
next
  case None
  show ?thesis
  proof (cases r1)
    case (DoError x)
    with None assms show ?thesis
      by (auto simp: Start_def fetchCSRFToken_def do_call_def Let_def
          intro!: exI[of _ "[CallFetchToken]"] exI[of _ "csrfToken m"])
  next
    case (DoResponse resp)
    with None assms show ?thesis
      by (auto simp: Start_def fetchCSRFToken_def do_call_def Let_def split: if_splits
          intro!: exI[of _ "[CallFetchToken]"] exI[of _ "XCSRFToken resp"])
  qed
qed

text \<open>
  C4. When the token fetch fails, \<open>Start\<close> returns the error that wraps the failure of
  the fetch, the manager is not running afterwards, no worker has been started, and no
  request for session creation has been sent.
\<close>

theorem Start_token_fetch_failure:
  assumes "\<not> IsRunning m" and "fst (fetchCSRFToken r1 m) = Some e"
  shows "fst (Start unm objectURI user password r1 r2 m) = Some (ErrFetchCSRFToken e)
       \<and> \<not> IsRunning (snd (Start unm objectURI user password r1 r2 m))
       \<and> workers (snd (Start unm objectURI user password r1 r2 m)) = workers m
       \<and> filter isStartSession (calls (snd (Start unm objectURI user password r1 r2 m)))
           = filter isStartSession (calls m)"
proof -
  from assms have nr: "\<not> running m" by (simp add: IsRunning_def)
  from Start_fetch_failure[OF nr assms(2), of unm objectURI user password r2]
  show ?thesis by (auto simp: IsRunning_def)
qed

theorem Start_token_fetch_failure_witness:
  "\<not> IsRunning (NewAMDPSessionManager None)
   \<and> fst (fetchCSRFToken (DoError ''connection refused'') (NewAMDPSessionManager None))
       = Some (ErrDo ''connection refused'')
   \<and> fst (Start sample_unmarshal ''/sap/bc/adt/amdp/zcl_demo'' ''DEVELOPER'' ''secret''
        (DoError ''connection refused'') (body_reply 201 []) (NewAMDPSessionManager None))
       = Some (ErrFetchCSRFToken (ErrDo ''connection refused''))
   \<and> \<not> IsRunning (snd (Start sample_unmarshal ''/sap/bc/adt/amdp/zcl_demo'' ''DEVELOPER''
        ''secret'' (DoError ''connection refused'') (body_reply 201 []) (NewAMDPSessionManager None)))"
proof -
  have h1: "\<not> IsRunning (NewAMDPSessionManager None)"
    by (simp add: IsRunning_def NewAMDPSessionManager_def)
  have h2: "fst (fetchCSRFToken (DoError ''connection refused'') (NewAMDPSessionManager None))
              = Some (ErrDo ''connection refused'')"
    by (simp add: fetchCSRFToken_def NewAMDPSessionManager_def Let_def)
  from Start_token_fetch_failure[OF h1 h2] h1 h2 show ?thesis by simp
qed

text \<open>
  C9. When the token request itself succeeds but the \<open>X-CSRF-Token\<close> header of the answer
  is empty or is the word \<open>unsafe\<close>, \<open>Start\<close> returns an error, the only request sent is
  the token fetch, and the manager is not running afterwards.
\<close>

theorem Start_rejects_empty_or_unsafe_token:
  assumes "\<not> IsRunning m" and "urlError m = None"
    and "XCSRFToken resp = '''' \<or> XCSRFToken resp = ''unsafe''"
  shows "fst (Start unm objectURI user password (DoResponse resp) r2 m)
           = Some (ErrFetchCSRFToken ErrNoCSRFToken)
       \<and> calls (snd (Start unm objectURI user password (DoResponse resp) r2 m))
           = calls m @ [CallFetchToken]
       \<and> \<not> IsRunning (snd (Start unm objectURI user password (DoResponse resp) r2 m))"
proof -
  from assms have nr: "\<not> running m" by (simp add: IsRunning_def)
  have f: "fst (fetchCSRFToken (DoResponse resp) m) = Some ErrNoCSRFToken"
    using assms(2,3) by (auto simp: fetchCSRFToken_def Let_def)
  have c: "calls (snd (Start unm objectURI user password (DoResponse resp) r2 m))
             = calls m @ [CallFetchToken]"
    using nr assms(2,3)
    by (auto simp: Start_def fetchCSRFToken_def do_call_def Let_def)
  from Start_fetch_failure[OF nr f, of unm objectURI user password r2] c
  show ?thesis by (auto simp: IsRunning_def)
qed

theorem Start_rejects_empty_or_unsafe_token_witness:
  "\<not> IsRunning (NewAMDPSessionManager None)
   \<and> urlError (NewAMDPSessionManager None) = None
   \<and> XCSRFToken \<lparr>StatusCode = 200, XCSRFToken = ''unsafe'', Body = [], ReadErr = None\<rparr> = ''unsafe''
   \<and> fst (Start sample_unmarshal ''/sap/bc/adt/amdp/zcl_demo'' ''DEVELOPER'' ''secret''
        (DoResponse \<lparr>StatusCode = 200, XCSRFToken = ''unsafe'', Body = [], ReadErr = None\<rparr>)
        (body_reply 201 ''<session><sessionId>S1</sessionId><mainId>M1</mainId></session>'')
        (NewAMDPSessionManager None))
       = Some (ErrFetchCSRFToken ErrNoCSRFToken)
   \<and> calls (snd (Start sample_unmarshal ''/sap/bc/adt/amdp/zcl_demo'' ''DEVELOPER'' ''secret''
        (DoResponse \<lparr>StatusCode = 200, XCSRFToken = ''unsafe'', Body = [], ReadErr = None\<rparr>)
        (body_reply 201 ''<session><sessionId>S1</sessionId><mainId>M1</mainId></session>'')
        (NewAMDPSessionManager None)))
       = [CallFetchToken]"
proof -
  have h1: "\<not> IsRunning (NewAMDPSessionManager None)"
    by (simp add: IsRunning_def NewAMDPSessionManager_def)
  have h2: "urlError (NewAMDPSessionManager None) = None"
    by (simp add: NewAMDPSessionManager_def)
  have h3: "XCSRFToken \<lparr>StatusCode = 200, XCSRFToken = ''unsafe'', Body = [], ReadErr = None\<rparr> = []
          \<or> XCSRFToken \<lparr>StatusCode = 200, XCSRFToken = ''unsafe'', Body = [], ReadErr = None\<rparr> = ''unsafe''"
    by simp
  have c: "calls (NewAMDPSessionManager None) = []"
    by (simp add: NewAMDPSessionManager_def)
  from Start_rejects_empty_or_unsafe_token[OF h1 h2 h3] h1 h2 c show ?thesis by simp
qed

subsection \<open>The state a failed Start leaves behind\<close>

text \<open>
  C10. When \<open>Start\<close> fails, on the token or on session creation, only the running flag
  is taken back: the state snapshot keeps the object URI of the attempt and the status
  \<open>starting\<close> and so is not the empty value; no worker was started and \<open>cleanup\<close> has not
  run.
\<close>

theorem failed_Start_keeps_starting_state:
  assumes "\<not> IsRunning m" and "fst (Start unm objectURI user password r1 r2 m) = Some e"
  shows "State (snd (Start unm objectURI user password r1 r2 m))
           = empty_state\<lparr>ObjectURI := objectURI, Status := ''starting''\<rparr>
       \<and> State (snd (Start unm objectURI user password r1 r2 m)) \<noteq> empty_state
       \<and> \<not> IsRunning (snd (Start unm objectURI user password r1 r2 m))
       \<and> workers (snd (Start unm objectURI user password r1 r2 m)) = workers m
       \<and> cleanups (snd (Start unm objectURI user password r1 r2 m)) = cleanups m"
proof -
  from assms(1) have nr: "\<not> running m" by (simp add: IsRunning_def)
  let ?m2 = "m\<lparr>running := True, cmdChannel := Some [],
                state := empty_state\<lparr>ObjectURI := objectURI, Status := ''starting''\<rparr>,
                cancel := True, ctxDone := False\<rparr>"
  obtain x3 m3 where f: "fetchCSRFToken r1 ?m2 = (x3, m3)" by (cases "fetchCSRFToken r1 ?m2")
  have f3: "state m3 = state ?m2" "workers m3 = workers m" "cleanups m3 = cleanups m"
    using f by (auto simp: fetchCSRFToken_def do_call_def Let_def
        split: option.splits http_outcome.splits if_splits)
  obtain x4 m4 where i: "initiateSession unm objectURI user r2 m3 = (x4, m4)"
    by (cases "initiateSession unm objectURI user r2 m3")
  have i4: "x4 \<noteq> None \<Longrightarrow> state m4 = state m3 \<and> workers m4 = workers m3 \<and> cleanups m4 = cleanups m3"
    using i by (auto simp: initiateSession_def do_call_def Let_def
        split: option.splits http_outcome.splits if_splits)
  have ne: "empty_state\<lparr>ObjectURI := objectURI, Status := ''starting''\<rparr> \<noteq> empty_state"
    by (simp add: empty_state_def)
  show ?thesis
    using nr assms(2) f f3 i i4 ne
    by (auto simp: Start_def State_def IsRunning_def Let_def split: option.splits)
qed

theorem failed_Start_keeps_starting_state_witness:
  "\<not> IsRunning (NewAMDPSessionManager None)
   \<and> fst (Start sample_unmarshal ''/sap/bc/adt/amdp/zcl_demo'' ''DEVELOPER'' ''secret''
        (token_reply ''tok'') (body_reply 500 ''Internal Server Error'') (NewAMDPSessionManager None))
       = Some (ErrStartSession (ErrStatus ''failed to start session'' 500 ''Internal Server Error''))
   \<and> State (snd (Start sample_unmarshal ''/sap/bc/adt/amdp/zcl_demo'' ''DEVELOPER'' ''secret''
        (token_reply ''tok'') (body_reply 500 ''Internal Server Error'') (NewAMDPSessionManager None)))
       = \<lparr>SessionID = [], MainID = [], ObjectURI = ''/sap/bc/adt/amdp/zcl_demo'',
          Status = ''starting'', CurrentLine = 0, CurrentProc = []\<rparr>"
proof -
  have h1: "\<not> IsRunning (NewAMDPSessionManager None)"
    by (simp add: IsRunning_def NewAMDPSessionManager_def)
  have h2: "fst (Start sample_unmarshal ''/sap/bc/adt/amdp/zcl_demo'' ''DEVELOPER'' ''secret''
        (token_reply ''tok'') (body_reply 500 ''Internal Server Error'') (NewAMDPSessionManager None))
       = Some (ErrStartSession (ErrStatus ''failed to start session'' 500 ''Internal Server Error''))"
    by (simp add: Start_def NewAMDPSessionManager_def fetchCSRFToken_def initiateSession_def
        do_call_def token_reply_def body_reply_def Let_def)
  from failed_Start_keeps_starting_state[OF h1 h2] h1 h2 show ?thesis
    by (simp add: empty_state_def)
qed

subsection \<open>A panic in the dispatch of a command\<close>

text \<open>
  C6. A panic raised while a command is dispatched, at any point of the worker's life,
  does not leave \<open>processCommands\<close>: the function returns, what the schedule holds after
  the panic is not run, and \<open>cleanup\<close> has run exactly once, on the manager the panic left
  behind.
\<close>

theorem panic_is_recovered:
  assumes "processCommands es1 m = (False, m1)" and "cmdChannel m1 = Some (cmd # q)"
  shows "processCommands (es1 @ SelRecv (Panics p) # es2) m
           = (True, cleanup (m1\<lparr>cmdChannel := Some q\<rparr>))
       \<and> cleanups (snd (processCommands (es1 @ SelRecv (Panics p) # es2) m)) = cleanups m + 1
       \<and> State (snd (processCommands (es1 @ SelRecv (Panics p) # es2) m)) = empty_state
       \<and> \<not> IsRunning (snd (processCommands (es1 @ SelRecv (Panics p) # es2) m))"
proof -
  have r: "processCommands (es1 @ SelRecv (Panics p) # es2) m
             = (True, cleanup (m1\<lparr>cmdChannel := Some q\<rparr>))"
    using assms by (simp add: processCommands_append loop_body_def)
  have "\<not> fst (processCommands es1 m)" using assms(1) by simp
  from processCommands_waiting[OF this] assms(1) have "cleanups m1 = cleanups m" by simp
  with r show ?thesis by (simp add: State_def IsRunning_def)
qed

theorem panic_is_recovered_witness:
  "processCommands [SelTick (Completes (DoError ''timeout''))]
       (snd (SendCommand_enqueue AMDPCmdStep [''step_type'' \<mapsto> StrArg ''over''] running_session))
     = (False, do_call (CallKeepalive ''M1'')
         (running_session\<lparr>nextChan := 1, cmdChannel := Some [step_over]\<rparr>))
   \<and> cleanups (snd (processCommands
         ([SelTick (Completes (DoError ''timeout''))]
            @ SelRecv (Panics ''nil map'') # [SelRecv (Completes (body_reply 200 []))])
         (snd (SendCommand_enqueue AMDPCmdStep [''step_type'' \<mapsto> StrArg ''over''] running_session))))
       = 1
   \<and> \<not> IsRunning (snd (processCommands
         ([SelTick (Completes (DoError ''timeout''))]
            @ SelRecv (Panics ''nil map'') # [SelRecv (Completes (body_reply 200 []))])
         (snd (SendCommand_enqueue AMDPCmdStep [''step_type'' \<mapsto> StrArg ''over''] running_session))))"
proof -
  let ?m = "snd (SendCommand_enqueue AMDPCmdStep [''step_type'' \<mapsto> StrArg ''over''] running_session)"
  let ?m1 = "do_call (CallKeepalive ''M1'')
               (running_session\<lparr>nextChan := 1, cmdChannel := Some [step_over]\<rparr>)"
  have h1: "processCommands [SelTick (Completes (DoError ''timeout''))] ?m = (False, ?m1)"
    by (simp add: SendCommand_enqueue_def running_session_def step_over_def loop_body_def
        sendKeepalive_def do_call_def Let_def fun_eq_iff)
  have h2: "cmdChannel ?m1 = Some (step_over # [])"
    by (simp add: do_call_def)
  have c: "cleanups ?m = 0"
    by (simp add: SendCommand_enqueue_def running_session_def Let_def)
  let ?es = "[SelTick (Completes (DoError ''timeout''))]
               @ SelRecv (Panics ''nil map'') # [SelRecv (Completes (body_reply 200 []))]"
  note t = panic_is_recovered[OF h1 h2, of "''nil map''" "[SelRecv (Completes (body_reply 200 []))]"]
  from t have a: "cleanups (snd (processCommands ?es ?m)) = cleanups ?m + 1"
    by (rule conjunct1[OF conjunct2])
  from t have b: "\<not> IsRunning (snd (processCommands ?es ?m))"
    by (rule conjunct2[OF conjunct2[OF conjunct2]])
  from a c have a': "cleanups (snd (processCommands ?es ?m)) = 1"
    by (simp del: processCommands.simps)
  from h1 a' b show ?thesis by (intro conjI)
qed

subsection \<open>Commands and the session state\<close>

text \<open>
  C7, as the specification states it, asks that a Step or GetStatus command writes what
  the remote side reports into the status, the current line and the current procedure.
  The source does not: a step whose answer reports a stop at line 42 of a procedure
  succeeds and leaves all three fields as they were.
\<close>

theorem step_updates_state_counterexample:
  "Success (fst (handleCommand
       (body_reply 200 ''<stepResult><status>breakpoint</status><line>42</line><proc>GET_FLIGHTS</proc></stepResult>'')
       step_over running_session))
   \<and> Status (State (snd (handleCommand
       (body_reply 200 ''<stepResult><status>breakpoint</status><line>42</line><proc>GET_FLIGHTS</proc></stepResult>'')
       step_over running_session))) = ''running''
   \<and> CurrentLine (State (snd (handleCommand
       (body_reply 200 ''<stepResult><status>breakpoint</status><line>42</line><proc>GET_FLIGHTS</proc></stepResult>'')
       step_over running_session))) = 0
   \<and> CurrentProc (State (snd (handleCommand
       (body_reply 200 ''<stepResult><status>breakpoint</status><line>42</line><proc>GET_FLIGHTS</proc></stepResult>'')
       step_over running_session))) = []"
  by (simp add: handleCommand_def step_def step_over_def running_session_def body_reply_def
      do_call_def arg_string_def State_def cmd_defs Let_def)

text \<open>
  C7, amended. Handling a command, Step and GetStatus included, leaves the session state
  as it is, and so does the whole pass of the loop that handles it and delivers the
  response; a successful GetStatus answers with a copy of that unchanged state, and a
  successful Step with the step type and the raw body of the remote answer.
\<close>

theorem handleCommand_keeps_state:
  "State (snd (handleCommand r cmd m)) = State m
   \<and> State (result_manager (loop_body e m)) = State m
   \<and> (Type cmd = AMDPCmdGetStatus \<and> Success (fst (handleCommand r cmd m))
        \<longrightarrow> Data (fst (handleCommand r cmd m)) = StateData (Some (State m)))
   \<and> (Type cmd = AMDPCmdStep \<and> Success (fst (handleCommand (DoResponse resp) cmd m))
        \<longrightarrow> Data (fst (handleCommand (DoResponse resp) cmd m))
              = StepData (Some (arg_string (Args cmd) ''step_type'', Body resp)))"
proof -
  have g: "Type cmd = AMDPCmdGetStatus \<Longrightarrow> Success (fst (handleCommand r cmd m)) \<Longrightarrow>
      Data (fst (handleCommand r cmd m)) = StateData (Some (State m))"
    by (auto simp: handleCommand_def getStatus_def do_call_def State_def cmd_defs Let_def
        split: option.splits http_outcome.splits if_splits)
  have s: "Type cmd = AMDPCmdStep \<Longrightarrow> Success (fst (handleCommand (DoResponse resp) cmd m)) \<Longrightarrow>
      Data (fst (handleCommand (DoResponse resp) cmd m))
        = StepData (Some (arg_string (Args cmd) ''step_type'', Body resp))"
    by (auto simp: handleCommand_def step_def do_call_def cmd_defs Let_def
        split: option.splits if_splits)
  from g s show ?thesis by (simp add: State_def)
qed

theorem handleCommand_keeps_state_witness:
  "Type \<lparr>Type = AMDPCmdGetStatus, Args = Map.empty, Response = 0\<rparr> = AMDPCmdGetStatus
   \<and> Success (fst (handleCommand (body_reply 200 ''<session/>'')
        \<lparr>Type = AMDPCmdGetStatus, Args = Map.empty, Response = 0\<rparr> running_session))
   \<and> Data (fst (handleCommand (body_reply 200 ''<session/>'')
        \<lparr>Type = AMDPCmdGetStatus, Args = Map.empty, Response = 0\<rparr> running_session))
       = StateData (Some (State running_session))
   \<and> State (snd (handleCommand (body_reply 200 ''<session/>'')
        \<lparr>Type = AMDPCmdGetStatus, Args = Map.empty, Response = 0\<rparr> running_session))
       = State running_session
   \<and> Type step_over = AMDPCmdStep
   \<and> Success (fst (handleCommand
        (DoResponse \<lparr>StatusCode = 200, XCSRFToken = [], Body = ''<line>42</line>'', ReadErr = None\<rparr>)
        step_over running_session))
   \<and> Data (fst (handleCommand
        (DoResponse \<lparr>StatusCode = 200, XCSRFToken = [], Body = ''<line>42</line>'', ReadErr = None\<rparr>)
        step_over running_session))
       = StepData (Some (''over'', ''<line>42</line>''))"
proof -
  let ?c = "\<lparr>Type = AMDPCmdGetStatus, Args = Map.empty, Response = 0\<rparr>"
  let ?resp = "\<lparr>StatusCode = 200, XCSRFToken = [], Body = ''<line>42</line>'', ReadErr = None\<rparr>"
  have h1: "Type ?c = AMDPCmdGetStatus" by simp
  have h2: "Success (fst (handleCommand (body_reply 200 ''<session/>'') ?c running_session))"
    by (simp add: handleCommand_def getStatus_def running_session_def body_reply_def
        do_call_def cmd_defs Let_def)
  have h3: "Type step_over = AMDPCmdStep" by (simp add: step_over_def)
  have h4: "Success (fst (handleCommand (DoResponse ?resp) step_over running_session))"
    by (simp add: handleCommand_def step_def running_session_def step_over_def
        do_call_def cmd_defs Let_def)
  have a: "arg_string (Args step_over) ''step_type'' = ''over''"
    by (simp add: step_over_def arg_string_def)
  from handleCommand_keeps_state[of "body_reply 200 ''<session/>''" ?c running_session] h1 h2
  have g: "Data (fst (handleCommand (body_reply 200 ''<session/>'') ?c running_session))
             = StateData (Some (State running_session))
         \<and> State (snd (handleCommand (body_reply 200 ''<session/>'') ?c running_session))
             = State running_session"
    by simp
  from handleCommand_keeps_state[of _ step_over running_session _ ?resp] h3 h4 a
  have s: "Data (fst (handleCommand (DoResponse ?resp) step_over running_session))
             = StepData (Some (''over'', ''<line>42</line>''))"
    by simp
  from h1 h2 g h3 h4 s show ?thesis by (intro conjI) simp_all
qed

subsection \<open>The session state along a run\<close>

lemma fetchCSRFToken_fields [simp]:
  "state (snd (fetchCSRFToken r m)) = state m"
  "running (snd (fetchCSRFToken r m)) = running m"
  "cmdChannel (snd (fetchCSRFToken r m)) = cmdChannel m"
  "nextChan (snd (fetchCSRFToken r m)) = nextChan m"
  "replies (snd (fetchCSRFToken r m)) = replies m"
  "delivered (snd (fetchCSRFToken r m)) = delivered m"
  by (simp_all add: fetchCSRFToken_def do_call_def Let_def split: option.splits http_outcome.splits)

lemma initiateSession_fields [simp]:
  "running (snd (initiateSession unm uri u r m)) = running m"
  "cmdChannel (snd (initiateSession unm uri u r m)) = cmdChannel m"
  "nextChan (snd (initiateSession unm uri u r m)) = nextChan m"
  "replies (snd (initiateSession unm uri u r m)) = replies m"
  "delivered (snd (initiateSession unm uri u r m)) = delivered m"
  by (simp_all add: initiateSession_def do_call_def Let_def
      split: option.splits http_outcome.splits prod.splits)

lemma initiateSession_state:
  "state (snd (initiateSession unm uri u r m)) = state m
   \<or> (\<exists>b sid mid. unm b = Some (sid, mid)
         \<and> state (snd (initiateSession unm uri u r m))
             = (state m)\<lparr>SessionID := sid, MainID := mid, Status := ''running''\<rparr>)"
  by (auto simp: initiateSession_def do_call_def Let_def
      split: option.splits http_outcome.splits prod.splits)

text \<open>The states a manager can be in after \<open>Start\<close>: the old one, the one of a failed
  attempt, or the one of a created session.\<close>

lemma Start_state:
  "state (snd (Start unm uri u p r1 r2 m)) = state m
   \<or> state (snd (Start unm uri u p r1 r2 m)) = empty_state\<lparr>ObjectURI := uri, Status := ''starting''\<rparr>
   \<or> (\<exists>b sid mid. unm b = Some (sid, mid)
         \<and> state (snd (Start unm uri u p r1 r2 m))
             = empty_state\<lparr>ObjectURI := uri, SessionID := sid, MainID := mid, Status := ''running''\<rparr>)"
proof (cases "running m")
  case True
  then show ?thesis by (simp add: Start_def)
next
  case False
  let ?m2 = "m\<lparr>running := True, cmdChannel := Some [],
                state := empty_state\<lparr>ObjectURI := uri, Status := ''starting''\<rparr>,
                cancel := True, ctxDone := False\<rparr>"
  let ?m3 = "snd (fetchCSRFToken r1 ?m2)"
  have s3: "state ?m3 = empty_state\<lparr>ObjectURI := uri, Status := ''starting''\<rparr>"
    by simp
  from initiateSession_state[of unm uri u r2 ?m3] s3 False
  show ?thesis
    by (auto simp: Start_def Let_def split_beta split: option.splits)
qed

lemma worker_run_state:
  "state (worker_run es m) = state m \<or> state (worker_run es m) = empty_state"
  using processCommands_returned[of es m] processCommands_waiting[of es m]
  by (cases "processCommands es m") (auto simp: worker_run_def split: bool.splits)

lemma SendCommand_enqueue_state [simp]:
  "state (snd (SendCommand_enqueue c a m)) = state m"
  by (simp add: SendCommand_enqueue_def Let_def split: option.splits)

lemma SendCommand_await_state [simp]:
  "state (snd (SendCommand_await k m)) = state m"
  by (simp add: SendCommand_await_def split: list.splits)

lemma SendCommand_state:
  "state (snd (SendCommand c a es m)) = state m \<or> state (snd (SendCommand c a es m)) = empty_state"
proof (cases "SendCommand_enqueue c a m")
  case (Pair x m1)
  then have s: "state m1 = state m"
    using SendCommand_enqueue_state[of c a m] by simp
  show ?thesis
  proof (cases x)
    case (Inl e)
    with Pair s show ?thesis by (simp add: SendCommand_def)
  next
    case (Inr k)
    with Pair s worker_run_state[of es m1] show ?thesis by (auto simp: SendCommand_def)
  qed
qed

lemma apply_action_state:
  "state (apply_action unm a m) = state m
   \<or> state (apply_action unm a m) = empty_state
   \<or> (\<exists>uri. state (apply_action unm a m) = empty_state\<lparr>ObjectURI := uri, Status := ''starting''\<rparr>)
   \<or> (\<exists>uri b sid mid. unm b = Some (sid, mid)
         \<and> state (apply_action unm a m)
             = empty_state\<lparr>ObjectURI := uri, SessionID := sid, MainID := mid, Status := ''running''\<rparr>)"
proof (cases a)
  case (ActStart uri u p r1 r2)
  show ?thesis
    unfolding ActStart apply_action.simps
    using Start_state[of unm uri u p r1 r2 m] by blast
next
  case ActStop
  then show ?thesis by (simp add: Stop_def)
next
  case ActCancel
  then show ?thesis by simp
next
  case (ActEnqueue c a')
  then show ?thesis by simp
next
  case (ActAwait k)
  then show ?thesis by simp
next
  case (ActSendCommand c a' es)
  with SendCommand_state[of c a' es m] show ?thesis by auto
next
  case (ActWorker es)
  with worker_run_state[of es m] show ?thesis by auto
qed

lemma exec_state_induct:
  assumes "P empty_state"
    and "\<And>uri. P (empty_state\<lparr>ObjectURI := uri, Status := ''starting''\<rparr>)"
    and "\<And>uri b sid mid. unm b = Some (sid, mid) \<Longrightarrow>
           P (empty_state\<lparr>ObjectURI := uri, SessionID := sid, MainID := mid, Status := ''running''\<rparr>)"
    and "P (state m)"
  shows "P (state (exec unm acts m))"
  using assms(4)
proof (induction acts arbitrary: m)
  case Nil
  then show ?case by simp
next
  case (Cons a acts)
  have "P (state (apply_action unm a m))"
    using apply_action_state[of unm a m] Cons.prems assms(1,2,3) by auto
  from Cons.IH[OF this] show ?case by simp
qed

text \<open>Along every run of a fresh manager a non-empty main id comes with the status
  \<open>running\<close>.\<close>

lemma mainID_nonempty_is_running:
  "MainID (State (exec unm acts (NewAMDPSessionManager uerr))) \<noteq> []
     \<Longrightarrow> Status (State (exec unm acts (NewAMDPSessionManager uerr))) = ''running''"
proof -
  assume ne: "MainID (State (exec unm acts (NewAMDPSessionManager uerr))) \<noteq> []"
  have "MainID (state (exec unm acts (NewAMDPSessionManager uerr))) \<noteq> []
          \<longrightarrow> Status (state (exec unm acts (NewAMDPSessionManager uerr))) = ''running''"
    by (rule exec_state_induct[where P = "\<lambda>s. MainID s \<noteq> [] \<longrightarrow> Status s = ''running''"])
      (simp_all add: empty_state_def NewAMDPSessionManager_def)
  with ne show ?thesis by (simp add: State_def)
qed

text \<open>
  C8. The property: at every observable point the main id is non-empty exactly when the
  status is one of running, breakpoint and stopping. The source does not keep it:
  \<open>initiateSession\<close> takes the main id as the decoder gives it and does not look at it,
  although \<open>fetchCSRFToken\<close> next to it refuses an empty token and every command treats
  an empty main id as no active session. When the remote side answers the
  session request with status 200 and a document without a main id, \<open>Start\<close> reports
  success, the manager is running, the snapshot shows the status \<open>running\<close> with an empty
  main id, and a step command on that session is answered with the no-active-session
  error without any request being sent.
\<close>

theorem Start_running_with_empty_mainID:
  "fst (Start sample_unmarshal ''/sap/bc/adt/amdp/zcl_demo'' ''DEVELOPER'' ''secret''
      (token_reply ''tok'') (body_reply 200 ''<session><sessionId>S1</sessionId></session>'')
      (NewAMDPSessionManager None)) = None
   \<and> IsRunning (snd (Start sample_unmarshal ''/sap/bc/adt/amdp/zcl_demo'' ''DEVELOPER''
      ''secret'' (token_reply ''tok'') (body_reply 200 ''<session><sessionId>S1</sessionId></session>'')
      (NewAMDPSessionManager None)))
   \<and> Status (State (snd (Start sample_unmarshal ''/sap/bc/adt/amdp/zcl_demo'' ''DEVELOPER''
      ''secret'' (token_reply ''tok'') (body_reply 200 ''<session><sessionId>S1</sessionId></session>'')
      (NewAMDPSessionManager None)))) = ''running''
   \<and> MainID (State (snd (Start sample_unmarshal ''/sap/bc/adt/amdp/zcl_demo'' ''DEVELOPER''
      ''secret'' (token_reply ''tok'') (body_reply 200 ''<session><sessionId>S1</sessionId></session>'')
      (NewAMDPSessionManager None)))) = []
   \<and> state_inv (State (snd (Start sample_unmarshal ''/sap/bc/adt/amdp/zcl_demo'' ''DEVELOPER''
      ''secret'' (token_reply ''tok'') (body_reply 200 ''<session><sessionId>S1</sessionId></session>'')
      (NewAMDPSessionManager None)))) = False
   \<and> handleCommand (body_reply 200 ''<stepResult/>'') step_over
        (snd (Start sample_unmarshal ''/sap/bc/adt/amdp/zcl_demo'' ''DEVELOPER''
          ''secret'' (token_reply ''tok'') (body_reply 200 ''<session><sessionId>S1</sessionId></session>'')
          (NewAMDPSessionManager None)))
       = (\<lparr>Success = False, Data = StepData None, Error = Some ErrNoActiveSession\<rparr>,
          snd (Start sample_unmarshal ''/sap/bc/adt/amdp/zcl_demo'' ''DEVELOPER''
            ''secret'' (token_reply ''tok'') (body_reply 200 ''<session><sessionId>S1</sessionId></session>'')
            (NewAMDPSessionManager None)))"
  by (simp add: Start_def NewAMDPSessionManager_def fetchCSRFToken_def initiateSession_def
      do_call_def token_reply_def body_reply_def sample_unmarshal_def state_inv_def
      active_status_def State_def IsRunning_def empty_state_def handleCommand_def step_def
      step_over_def cmd_defs Let_def)

subsection \<open>Reply channels\<close>

lemma chan_inv_cong:
  "replies m' = replies m \<Longrightarrow> delivered m' = delivered m \<Longrightarrow> nextChan m' = nextChan m \<Longrightarrow>
     cmdChannel m' = cmdChannel m \<Longrightarrow> chan_inv m' = chan_inv m"
  by (simp add: chan_inv_def)

lemma chan_inv_new_channel:
  "replies m' = replies m \<Longrightarrow> delivered m' = delivered m \<Longrightarrow> nextChan m' = nextChan m \<Longrightarrow>
     cmdChannel m' = Some [] \<or> cmdChannel m' = None \<Longrightarrow> chan_inv m \<Longrightarrow> chan_inv m'"
  by (auto simp: chan_inv_def)

lemma chan_inv_init: "chan_inv (NewAMDPSessionManager uerr)"
  by (simp add: chan_inv_def NewAMDPSessionManager_def)

lemma Start_cmdChannel:
  "cmdChannel (snd (Start unm uri u p r1 r2 m)) = cmdChannel m
   \<or> cmdChannel (snd (Start unm uri u p r1 r2 m)) = Some []"
  by (simp add: Start_def Let_def split_beta split: option.splits)

lemma Start_chan_fields [simp]:
  "replies (snd (Start unm uri u p r1 r2 m)) = replies m"
  "delivered (snd (Start unm uri u p r1 r2 m)) = delivered m"
  "nextChan (snd (Start unm uri u p r1 r2 m)) = nextChan m"
  by (simp_all add: Start_def Let_def split_beta split: option.splits)

lemma chan_inv_Start: "chan_inv m \<Longrightarrow> chan_inv (snd (Start unm uri u p r1 r2 m))"
  using Start_cmdChannel[of unm uri u p r1 r2 m]
    chan_inv_cong[of "snd (Start unm uri u p r1 r2 m)" m]
    chan_inv_new_channel[of "snd (Start unm uri u p r1 r2 m)" m]
  by auto

lemma chan_inv_enqueue: "chan_inv m \<Longrightarrow> chan_inv (snd (SendCommand_enqueue c a m))"
  by (auto simp: SendCommand_enqueue_def chan_inv_def Let_def less_SucI split: option.splits)

lemma chan_inv_await: "chan_inv m \<Longrightarrow> chan_inv (snd (SendCommand_await k m))"
proof (cases "replies m k")
  case Nil
  then show "chan_inv m \<Longrightarrow> ?thesis" by (simp add: SendCommand_await_def)
next
  case (Cons resp rest)
  assume inv: "chan_inv m"
  have "\<And>j. length (if j = k then rest else replies m j) \<le> delivered m j"
  proof -
    fix j
    from inv have "length (replies m j) \<le> delivered m j" by (simp add: chan_inv_def)
    with Cons show "length (if j = k then rest else replies m j) \<le> delivered m j" by auto
  qed
  with inv Cons show ?thesis
    by (simp add: SendCommand_await_def chan_inv_def)
qed

text \<open>The send of a reply to the channel of the command just taken from the queue.\<close>

lemma chan_inv_try_send:
  assumes inv: "chan_inv m" and q: "cmdChannel m = Some (cmd # q)"
    and f: "replies m2 = replies m" "delivered m2 = delivered m" "nextChan m2 = nextChan m"
      "cmdChannel m2 = Some q"
  shows "chan_inv (try_send (Response cmd) resp m2)"
proof -
  let ?k = "Response cmd"
  from inv q have d: "distinct (map Response (cmd # q))"
    and lt: "\<forall>c \<in> set (cmd # q). Response c < nextChan m \<and> delivered m (Response c) = 0"
    by (simp_all add: chan_inv_def)
  from inv have b: "\<And>j. length (replies m j) \<le> delivered m j \<and> delivered m j \<le> 1"
    and z: "\<And>j. nextChan m \<le> j \<Longrightarrow> delivered m j = 0"
    by (simp_all add: chan_inv_def)
  from lt have k0: "delivered m ?k = 0" and kn: "?k < nextChan m" by simp_all
  from d have "?k \<notin> Response ` set q" by simp
  then have notin: "\<forall>c \<in> set q. Response c \<noteq> ?k" by (metis imageI)
  from b[of ?k] k0 have empty: "replies m ?k = []" by simp
  have "try_send ?k resp m2
          = m2\<lparr>replies := (replies m)(?k := [resp]), delivered := (delivered m)(?k := 1)\<rparr>"
    using f empty k0 by (simp add: try_send_def chan_send_def)
  moreover have "chan_inv (m2\<lparr>replies := (replies m)(?k := [resp]),
                               delivered := (delivered m)(?k := 1)\<rparr>)"
    unfolding chan_inv_def
  proof (intro conjI allI impI)
    fix j
    show "length (replies (m2\<lparr>replies := (replies m)(?k := [resp]),
                              delivered := (delivered m)(?k := 1)\<rparr>) j)
            \<le> delivered (m2\<lparr>replies := (replies m)(?k := [resp]),
                              delivered := (delivered m)(?k := 1)\<rparr>) j"
      using b[of j] by simp
    show "delivered (m2\<lparr>replies := (replies m)(?k := [resp]),
                         delivered := (delivered m)(?k := 1)\<rparr>) j \<le> 1"
      using b[of j] by simp
  next
    fix j
    assume "nextChan (m2\<lparr>replies := (replies m)(?k := [resp]),
                          delivered := (delivered m)(?k := 1)\<rparr>) \<le> j"
    with f(3) kn z[of j]
    show "delivered (m2\<lparr>replies := (replies m)(?k := [resp]),
                         delivered := (delivered m)(?k := 1)\<rparr>) j = 0"
      by auto
  next
    fix q'
    assume "cmdChannel (m2\<lparr>replies := (replies m)(?k := [resp]),
                            delivered := (delivered m)(?k := 1)\<rparr>) = Some q'"
    with f(4) have q': "q' = q" by simp
    from d show "distinct (map Response q')" unfolding q' by simp
    show "\<forall>c \<in> set q'. Response c < nextChan (m2\<lparr>replies := (replies m)(?k := [resp]),
                                                     delivered := (delivered m)(?k := 1)\<rparr>)
            \<and> delivered (m2\<lparr>replies := (replies m)(?k := [resp]),
                              delivered := (delivered m)(?k := 1)\<rparr>) (Response c) = 0"
      unfolding q' using lt notin f(3) by auto
  qed
  ultimately show ?thesis by simp
qed

lemma chan_inv_dequeue:
  "chan_inv m \<Longrightarrow> cmdChannel m = Some (cmd # q) \<Longrightarrow> chan_inv (m\<lparr>cmdChannel := Some q\<rparr>)"
  by (auto simp: chan_inv_def)

lemma chan_inv_loop_body: "chan_inv m \<Longrightarrow> chan_inv (result_manager (loop_body e m))"
proof (cases e)
  case SelDone
  then show "chan_inv m \<Longrightarrow> ?thesis" by (simp add: loop_body_def)
next
  case (SelTick d)
  assume inv: "chan_inv m"
  show ?thesis
  proof (cases d)
    case (Completes r)
    with SelTick inv chan_inv_cong[of "sendKeepalive r m" m] show ?thesis
      by (simp add: loop_body_def)
  next
    case (Panics p)
    with SelTick inv show ?thesis by (simp add: loop_body_def)
  qed
next
  case (SelRecv d)
  assume inv: "chan_inv m"
  show ?thesis
  proof (cases "cmdChannel m")
    case None
    with SelRecv inv show ?thesis by (simp add: loop_body_def)
  next
    case (Some queue)
    show ?thesis
    proof (cases queue)
      case Nil
      with Some SelRecv inv show ?thesis by (simp add: loop_body_def)
    next
      case (Cons cmd q)
      with Some have ch: "cmdChannel m = Some (cmd # q)" by simp
      show ?thesis
      proof (cases d)
        case (Panics p)
        with SelRecv ch chan_inv_dequeue[OF inv ch] show ?thesis by (simp add: loop_body_def)
      next
        case (Completes r)
        let ?m2 = "snd (handleCommand r cmd (m\<lparr>cmdChannel := Some q\<rparr>))"
        have "chan_inv (try_send (Response cmd) (fst (handleCommand r cmd (m\<lparr>cmdChannel := Some q\<rparr>))) ?m2)"
          by (rule chan_inv_try_send[OF inv ch]) simp_all
        with SelRecv ch Completes show ?thesis
          by (simp add: loop_body_def Let_def split_beta)
      qed
    qed
  qed
qed

lemma chan_inv_cleanup: "chan_inv m \<Longrightarrow> chan_inv (cleanup m)"
  using chan_inv_new_channel[of "cleanup m" m] by simp

lemma chan_inv_processCommands: "chan_inv m \<Longrightarrow> chan_inv (snd (processCommands es m))"
proof (induction es arbitrary: m)
  case Nil
  then show ?case by simp
next
  case (Cons e es)
  from chan_inv_loop_body[OF Cons.prems, of e]
  show ?case
    by (cases "loop_body e m") (simp_all add: Cons.IH chan_inv_cleanup)
qed

lemma chan_inv_worker_run: "chan_inv m \<Longrightarrow> chan_inv (worker_run es m)"
proof -
  assume inv: "chan_inv m"
  have "chan_inv (snd (processCommands es m)\<lparr>workers := w\<rparr>)" for w
    using chan_inv_processCommands[OF inv, of es]
      chan_inv_cong[of "snd (processCommands es m)\<lparr>workers := w\<rparr>" "snd (processCommands es m)"]
    by simp
  with inv chan_inv_processCommands[OF inv, of es] show ?thesis
    by (cases "processCommands es m") (auto simp: worker_run_def split: bool.splits)
qed

lemma chan_inv_SendCommand: "chan_inv m \<Longrightarrow> chan_inv (snd (SendCommand c a es m))"
proof -
  assume inv: "chan_inv m"
  show ?thesis
  proof (cases "SendCommand_enqueue c a m")
    case (Pair x m1)
    with chan_inv_enqueue[OF inv, of c a] have i1: "chan_inv m1" by simp
    show ?thesis
    proof (cases x)
      case (Inl e)
      with Pair i1 show ?thesis by (simp add: SendCommand_def)
    next
      case (Inr k)
      with Pair chan_inv_await[OF chan_inv_worker_run[OF i1, of es], of k] show ?thesis
        by (simp add: SendCommand_def)
    qed
  qed
qed

lemma chan_inv_apply_action: "chan_inv m \<Longrightarrow> chan_inv (apply_action unm a m)"
proof (cases a)
  case (ActStart uri u p r1 r2)
  then show "chan_inv m \<Longrightarrow> ?thesis" by (simp add: chan_inv_Start)
next
  case ActStop
  then show "chan_inv m \<Longrightarrow> ?thesis" by (simp add: Stop_def chan_inv_def)
next
  case ActCancel
  then show "chan_inv m \<Longrightarrow> ?thesis" by (simp add: chan_inv_def)
next
  case (ActEnqueue c a')
  then show "chan_inv m \<Longrightarrow> ?thesis" by (simp add: chan_inv_enqueue)
next
  case (ActAwait k)
  then show "chan_inv m \<Longrightarrow> ?thesis" by (simp add: chan_inv_await)
next
  case (ActSendCommand c a' es)
  then show "chan_inv m \<Longrightarrow> ?thesis" by (simp add: chan_inv_SendCommand)
next
  case (ActWorker es)
  then show "chan_inv m \<Longrightarrow> ?thesis" by (simp add: chan_inv_worker_run)
qed

lemma chan_inv_exec: "chan_inv m \<Longrightarrow> chan_inv (exec unm acts m)"
  by (induction acts arbitrary: m) (simp_all add: chan_inv_apply_action)

text \<open>What the pass that receives a command does with the reply: it always gets past the
  send, with the command taken from the queue; into an empty reply channel it puts the
  response of \<open>handleCommand\<close>; an occupied one, on which the bare communication could not
  proceed, it leaves alone, and the response is dropped.\<close>

lemma recv_pass_completes:
  assumes "cmdChannel m = Some (cmd # q)"
  shows "(loop_body (SelRecv (Completes r)) m = Continue (result_manager (loop_body (SelRecv (Completes r)) m))
          \<or> loop_body (SelRecv (Completes r)) m = Return (result_manager (loop_body (SelRecv (Completes r)) m)))
       \<and> cmdChannel (result_manager (loop_body (SelRecv (Completes r)) m)) = Some q"
  using assms by (simp add: loop_body_def Let_def split_beta)

lemma recv_pass_delivers:
  assumes "cmdChannel m = Some (cmd # q)" and "replies m (Response cmd) = []"
  shows "replies (result_manager (loop_body (SelRecv (Completes r)) m))
           = (replies m)(Response cmd := [fst (handleCommand r cmd (m\<lparr>cmdChannel := Some q\<rparr>))])"
    and "delivered (result_manager (loop_body (SelRecv (Completes r)) m))
           = (delivered m)(Response cmd := delivered m (Response cmd) + 1)"
  using assms by (simp_all add: loop_body_def Let_def split_beta try_send_def chan_send_def)

lemma recv_pass_drops:
  assumes "cmdChannel m = Some (cmd # q)" and "replies m (Response cmd) \<noteq> []"
  shows "chan_send (Response cmd) (fst (handleCommand r cmd (m\<lparr>cmdChannel := Some q\<rparr>)))
           (snd (handleCommand r cmd (m\<lparr>cmdChannel := Some q\<rparr>))) = None"
    and "replies (result_manager (loop_body (SelRecv (Completes r)) m)) = replies m"
    and "delivered (result_manager (loop_body (SelRecv (Completes r)) m)) = delivered m"
  using assms by (simp_all add: loop_body_def Let_def split_beta try_send_def chan_send_def)

text \<open>
  C5. In every run of a fresh manager, each reply channel has accepted at most one
  response and holds at most one, and the reply channel of a command that waits in the
  queue is empty, so the worker's send finds room. In any manager whatever, the pass that
  receives a command gets past the send of the reply, with the command taken from the
  queue, and goes on with the loop or returns: when the reply channel is empty, it then
  holds exactly the response of \<open>handleCommand\<close> and has accepted one send more; when its
  buffer is occupied, so that the bare communication could not proceed and a worker
  executing it would wait, the \<open>default\<close> case drops the response and no reply channel
  changes.
\<close>

theorem reply_channel_at_most_one:
  "delivered (exec unm acts (NewAMDPSessionManager uerr)) k \<le> 1
   \<and> length (replies (exec unm acts (NewAMDPSessionManager uerr)) k) \<le> 1
   \<and> (cmdChannel (exec unm acts (NewAMDPSessionManager uerr)) = Some (cmd # q)
        \<longrightarrow> replies (exec unm acts (NewAMDPSessionManager uerr)) (Response cmd) = [])
   \<and> (cmdChannel m = Some (cmd' # q')
        \<longrightarrow> (loop_body (SelRecv (Completes r)) m
               = Continue (result_manager (loop_body (SelRecv (Completes r)) m))
             \<or> loop_body (SelRecv (Completes r)) m
               = Return (result_manager (loop_body (SelRecv (Completes r)) m)))
          \<and> cmdChannel (result_manager (loop_body (SelRecv (Completes r)) m)) = Some q'
          \<and> (replies m (Response cmd') = []
               \<longrightarrow> replies (result_manager (loop_body (SelRecv (Completes r)) m))
                     = (replies m)(Response cmd' :=
                          [fst (handleCommand r cmd' (m\<lparr>cmdChannel := Some q'\<rparr>))])
                 \<and> delivered (result_manager (loop_body (SelRecv (Completes r)) m))
                     = (delivered m)(Response cmd' := delivered m (Response cmd') + 1))
          \<and> (replies m (Response cmd') \<noteq> []
               \<longrightarrow> chan_send (Response cmd')
                       (fst (handleCommand r cmd' (m\<lparr>cmdChannel := Some q'\<rparr>)))
                       (snd (handleCommand r cmd' (m\<lparr>cmdChannel := Some q'\<rparr>))) = None
                 \<and> replies (result_manager (loop_body (SelRecv (Completes r)) m)) = replies m
                 \<and> delivered (result_manager (loop_body (SelRecv (Completes r)) m))
                     = delivered m))"
proof -
  let ?m = "exec unm acts (NewAMDPSessionManager uerr)"
  have inv: "chan_inv ?m"
    by (rule chan_inv_exec[OF chan_inv_init])
  then have b: "length (replies ?m j) \<le> delivered ?m j \<and> delivered ?m j \<le> 1" for j
    by (simp add: chan_inv_def)
  have e: "replies ?m (Response cmd) = []" if ch: "cmdChannel ?m = Some (cmd # q)"
  proof -
    from inv ch have "delivered ?m (Response cmd) = 0" by (simp add: chan_inv_def)
    with b[of "Response cmd"] show ?thesis by simp
  qed
  have l: "length (replies ?m k) \<le> 1" using b[of k] by linarith
  from b[of k] l e recv_pass_completes[of m cmd' q' r]
    recv_pass_delivers[of m cmd' q' r] recv_pass_drops[of m cmd' q' r]
  show ?thesis by blast
qed

theorem reply_channel_at_most_one_witness:
  "cmdChannel (exec sample_unmarshal
       [ActStart ''/sap/bc/adt/amdp/zcl_demo'' ''DEVELOPER'' ''secret'' (token_reply ''tok'')
          (body_reply 201 ''<session><sessionId>S1</sessionId><mainId>M1</mainId></session>''),
        ActEnqueue AMDPCmdStep [''step_type'' \<mapsto> StrArg ''over'']]
       (NewAMDPSessionManager None)) = Some (step_over # [])
   \<and> replies (exec sample_unmarshal
       [ActStart ''/sap/bc/adt/amdp/zcl_demo'' ''DEVELOPER'' ''secret'' (token_reply ''tok'')
          (body_reply 201 ''<session><sessionId>S1</sessionId><mainId>M1</mainId></session>''),
        ActEnqueue AMDPCmdStep [''step_type'' \<mapsto> StrArg ''over'']]
       (NewAMDPSessionManager None)) (Response step_over) = []
   \<and> exec sample_unmarshal
       [ActStart ''/sap/bc/adt/amdp/zcl_demo'' ''DEVELOPER'' ''secret'' (token_reply ''tok'')
          (body_reply 201 ''<session><sessionId>S1</sessionId><mainId>M1</mainId></session>''),
        ActEnqueue AMDPCmdStep [''step_type'' \<mapsto> StrArg ''over'']]
       (NewAMDPSessionManager None) = queued_session
   \<and> cmdChannel (result_manager (loop_body
        (SelRecv (Completes (body_reply 200 ''<stepResult/>''))) queued_session)) = Some []
   \<and> replies (result_manager (loop_body
        (SelRecv (Completes (body_reply 200 ''<stepResult/>''))) queued_session)) 0
       = [\<lparr>Success = True, Data = StepData (Some (''over'', ''<stepResult/>'')), Error = None\<rparr>]
   \<and> delivered (result_manager (loop_body
        (SelRecv (Completes (body_reply 200 ''<stepResult/>''))) queued_session)) 0 = 1
   \<and> cmdChannel occupied_session = Some (step_over # [])
   \<and> replies occupied_session (Response step_over) = [empty_response]
   \<and> cmdChannel (result_manager (loop_body
        (SelRecv (Completes (body_reply 200 ''<stepResult/>''))) occupied_session)) = Some []
   \<and> replies (result_manager (loop_body
        (SelRecv (Completes (body_reply 200 ''<stepResult/>''))) occupied_session))
       = replies occupied_session
   \<and> delivered (result_manager (loop_body
        (SelRecv (Completes (body_reply 200 ''<stepResult/>''))) occupied_session))
       = delivered occupied_session"
proof -
  let ?acts = "[ActStart ''/sap/bc/adt/amdp/zcl_demo'' ''DEVELOPER'' ''secret'' (token_reply ''tok'')
          (body_reply 201 ''<session><sessionId>S1</sessionId><mainId>M1</mainId></session>''),
        ActEnqueue AMDPCmdStep [''step_type'' \<mapsto> StrArg ''over'']]"
  let ?m = "exec sample_unmarshal ?acts (NewAMDPSessionManager None)"
  let ?r = "body_reply 200 ''<stepResult/>''"
  let ?resp = "\<lparr>Success = True, Data = StepData (Some (''over'', ''<stepResult/>'')), Error = None\<rparr>"
  have m: "?m = queued_session"
    by (simp add: running_session_started SendCommand_enqueue_def running_session_def
        queued_session_def step_over_def Let_def fun_eq_iff)
  have h: "cmdChannel ?m = Some (step_over # [])"
    unfolding m by (simp add: queued_session_def)
  have hq: "cmdChannel queued_session = Some (step_over # [])"
    by (simp add: queued_session_def)
  have eq: "replies queued_session (Response step_over) = []"
    by (simp add: queued_session_def running_session_def)
  have dq: "delivered queued_session (Response step_over) = 0" "Response step_over = 0"
    by (simp_all add: queued_session_def running_session_def step_over_def)
  have rq: "fst (handleCommand ?r step_over (queued_session\<lparr>cmdChannel := Some []\<rparr>)) = ?resp"
    by (simp add: handleCommand_def step_def queued_session_def running_session_def
        step_over_def body_reply_def do_call_def arg_string_def cmd_defs Let_def)
  have ho: "cmdChannel occupied_session = Some (step_over # [])"
    by (simp add: occupied_session_def queued_session_def)
  have no: "replies occupied_session (Response step_over) = [empty_response]"
    by (simp add: occupied_session_def step_over_def)
  then have no': "replies occupied_session (Response step_over) \<noteq> []" by simp
  note t1 = reply_channel_at_most_one[of sample_unmarshal ?acts None 0 step_over "[]"
      queued_session step_over "[]" ?r]
  note t2 = reply_channel_at_most_one[of sample_unmarshal ?acts None 0 step_over "[]"
      occupied_session step_over "[]" ?r]
  from t1 h have a1: "replies ?m (Response step_over) = []" by blast
  from t1 hq eq
  have a2: "cmdChannel (result_manager (loop_body (SelRecv (Completes ?r)) queued_session)) = Some []"
    and a3: "replies (result_manager (loop_body (SelRecv (Completes ?r)) queued_session))
               = (replies queued_session)(Response step_over :=
                    [fst (handleCommand ?r step_over (queued_session\<lparr>cmdChannel := Some []\<rparr>))])"
    and a4: "delivered (result_manager (loop_body (SelRecv (Completes ?r)) queued_session))
               = (delivered queued_session)(Response step_over :=
                    delivered queued_session (Response step_over) + 1)"
    by blast+
  from a3 rq dq
  have a3': "replies (result_manager (loop_body (SelRecv (Completes ?r)) queued_session)) 0 = [?resp]"
    by simp
  from a4 dq
  have a4': "delivered (result_manager (loop_body (SelRecv (Completes ?r)) queued_session)) 0 = 1"
    by simp
  from t2 ho no'
  have b1: "cmdChannel (result_manager (loop_body (SelRecv (Completes ?r)) occupied_session)) = Some []"
    and b2: "replies (result_manager (loop_body (SelRecv (Completes ?r)) occupied_session))
               = replies occupied_session"
    and b3: "delivered (result_manager (loop_body (SelRecv (Completes ?r)) occupied_session))
               = delivered occupied_session"
    by blast+
  from h a1 m a2 a3' a4' ho no b1 b2 b3 show ?thesis by (intro conjI)
qed

end
